theory Spec2Isabelle
  imports Main "HOL-Library.Word" "HOL-Library.Log_Nat"
begin

section \<open>The proof-orchestration core of the output proposer\<close>

text \<open>
  The Go code under verification is \<^verbatim>\<open>op-proposer/proposer/prove.go\<close> (with the span-batch
  derivation that follows it in the same source file). Its functions are methods of
  \<^verbatim>\<open>L2OutputSubmitter\<close>; they talk to four collaborators whose code is not part of the
  sources: the proof store \<^verbatim>\<open>l.db\<close>, the prover's HTTP service, the output-oracle
  contract and the batch decoder. The embedding keeps the Go functions as HOL functions
  and makes the collaborators explicit:

  \<^item> every \<^emph>\<open>write\<close> the code issues (a store method that mutates, an HTTP POST) is appended
    to a trace of calls, in program order;
  \<^item> every \<^emph>\<open>answer\<close> of a collaborator (the error a store method returns, the rows a query
    returns, an HTTP response, the clock) is read from an environment, which may depend
    on the calls issued so far. Any deterministic store or server is such an environment.
\<close>

subsection \<open>Data\<close>

type_synonym u64 = "64 word"

text \<open>Go's \<^verbatim>\<open>int64\<close>: a 64-bit word read in two's complement (\<open>sint\<close>, \<open><s\<close>).\<close>

type_synonym i64 = "64 word"

text \<open>A Go slice may be \<^verbatim>\<open>nil\<close> (\<open>None\<close>); \<open>bytes\<close> is Go's \<^verbatim>\<open>[]byte\<close>.\<close>

type_synonym 'a slice = "'a list option"

type_synonym bytes = "8 word slice"

text \<open>
  Go errors. \<open>Wrap msg e\<close> is \<^verbatim>\<open>fmt.Errorf("msg: %w", e)\<close>; the two sentinel errors are the
  ones of package \<^verbatim>\<open>reassemble\<close> that \<^verbatim>\<open>DeriveNewSpanBatches\<close> compares against;
  \<open>NotFoundError\<close> is the error \<^verbatim>\<open>ent.IsNotFound\<close> recognises.
\<close>

datatype error =
    Error string
  | Wrap string error
  | NotFoundError
  | NoSpanBatchFoundError
  | MaxDeviationExceededError

fun IsNotFound :: "error \<Rightarrow> bool" where
  "IsNotFound NotFoundError = True"
| "IsNotFound (Wrap msg e) = IsNotFound e"
| "IsNotFound e = False"

text \<open>
  Modelled from the spec: the generated type \<^verbatim>\<open>ent.ProofRequest\<close> and its enumeration
  \<^verbatim>\<open>proofrequest.Type\<close> are not in the sources. The record has the fields the code reads
  (section 3 of the specification: id, type, start_block, end_block, prover_request_id,
  request_time). \<open>TypeOther\<close> stands for any value that is neither of the two named ones,
  which \<^verbatim>\<open>RequestKonaProof\<close> handles in its last branch.
\<close>

datatype proof_type = TypeSPAN | TypeAGG | TypeOther

record ProofRequest =
  ID :: int
  Type :: proof_type
  StartBlock :: u64
  EndBlock :: u64
  ProverRequestID :: string
  ProofRequestTime :: i64

text \<open>
  Modelled from the spec: the configuration struct behind \<^verbatim>\<open>l.DriverSetup.Cfg\<close> is not in the
  sources. The record has the values the code reads (section 6 of the specification), with
  the types their use in the code requires.
\<close>

record config =
  MaxProofTime :: i64
  KonaServerUrl :: string
  MaxBlockRangePerSpanProof :: u64
  MaxSpanBatchDeviation :: u64

text \<open>
  The value \<^verbatim>\<open>json.Marshal\<close> produces, as abstract syntax: an object is the list of its
  members in field order, a byte slice is written as a base64 string (\<open>JBase64\<close> keeps the
  bytes), a \<^verbatim>\<open>nil\<close> slice as \<^verbatim>\<open>null\<close>.
\<close>

datatype json =
    JNull
  | JNum nat
  | JStr string
  | JBase64 "8 word list"
  | JArr "json list"
  | JObj "(string \<times> json) list"

record SpanProofRequest =
  Start :: u64
  End :: u64

record AggProofRequest =
  Subproofs :: "bytes slice"

record ProofResponse =
  ProofID :: string

record ProofStatus =
  Status :: string
  Proof :: bytes

subsection \<open>Calls and collaborators\<close>

text \<open>
  The writes of the program. The first five are methods of the proof store, with the
  arguments the Go code passes (status and type as the string literals of the source);
  \<open>HttpPost url body\<close> is the request \<^verbatim>\<open>RequestProofFromServer\<close> sends.
\<close>

datatype call =
    AddProof int bytes
  | UpdateProofStatus int string
  | NewEntry string u64 u64
  | SetProverRequestID int string
  | AddL1BlockInfo u64 u64 u64 string
  | HttpPost string json

type_synonym trace = "call list"

text \<open>What \<^verbatim>\<open>client.Do\<close> hands back: the body \<^verbatim>\<open>ioutil.ReadAll\<close> reads and its error.\<close>

record http_response =
  ReadAll_body :: string
  ReadAll_err :: "error option"

text \<open>
  The collaborators. Each answer may depend on the trace of calls issued before it.
  \<open>db_reply\<close> is the error a mutating store method returns (\<open>None\<close> is \<^verbatim>\<open>nil\<close>);
  \<open>json_Unmarshal_*\<close> is \<^verbatim>\<open>json.Unmarshal\<close> into a zero value of the named struct: its error
  and the struct as it is left. \<open>uint64_of_2p64\<close> is the result of converting the float
  \<open>2^64\<close> to \<^verbatim>\<open>uint64\<close>, which Go leaves to the implementation.
  \<open>loopvar_per_iteration\<close> tells whether a \<^verbatim>\<open>for range\<close> loop has one variable per iteration
  (Go 1.22 language version and later) or one variable for the whole loop (before); the
  module's \<^verbatim>\<open>go\<close> directive is not part of the sources.
\<close>

record env =
  Cfg :: config
  db_reply :: "trace \<Rightarrow> call \<Rightarrow> error option"
  GetAllPendingProofs :: "trace \<Rightarrow> error + ProofRequest list"
  GetAllUnrequestedProofs :: "trace \<Rightarrow> error + ProofRequest list"
  GetSubproofs :: "trace \<Rightarrow> u64 \<Rightarrow> u64 \<Rightarrow> error + bytes slice"
  GetLatestEndBlock :: "trace \<Rightarrow> error + u64"
  time_Now_Unix :: "trace \<Rightarrow> i64"
  http_NewRequest :: "string \<Rightarrow> string \<Rightarrow> error option"
  client_Do :: "trace \<Rightarrow> string \<Rightarrow> string \<Rightarrow> error + http_response"
  json_Unmarshal_ProofStatus :: "string \<Rightarrow> error option \<times> ProofStatus"
  json_Unmarshal_ProofResponse :: "string \<Rightarrow> error option \<times> ProofResponse"
  checkpointBlockHash :: "trace \<Rightarrow> error + (u64 \<times> string)"
  LatestBlockNumber :: "trace \<Rightarrow> error + nat"
  FetchBatchesFromChain :: "trace \<Rightarrow> u64 \<Rightarrow> error option"
  GenerateSpanBatchRange :: "trace \<Rightarrow> u64 \<Rightarrow> u64 \<Rightarrow> u64 \<times> u64 \<times> error option"
  uint64_of_2p64 :: u64
  loopvar_per_iteration :: bool

text \<open>A store call: the call is recorded and the store's answer returned.\<close>

definition db_call :: "env \<Rightarrow> call \<Rightarrow> trace \<Rightarrow> error option \<times> trace" where
  "db_call E c tr = (db_reply E tr c, tr @ [c])"

text \<open>
  Sequencing with Go's \<^verbatim>\<open>if err != nil { return err }\<close>: the continuation runs only after
  a \<^verbatim>\<open>nil\<close> error.
\<close>

definition then_ok :: "error option \<times> trace \<Rightarrow> (trace \<Rightarrow> error option \<times> trace) \<Rightarrow> error option \<times> trace" where
  "then_ok r k = (case r of (Some err, tr) \<Rightarrow> (Some err, tr) | (None, tr) \<Rightarrow> k tr)"

subsection \<open>The prover client: polling\<close>

text \<open>
  \<^verbatim>\<open>GetProofStatus\<close> returns Go's triple (status, proof, err). The errors of
  \<^verbatim>\<open>ioutil.ReadAll\<close> and \<^verbatim>\<open>json.Unmarshal\<close> are formatted with \<^verbatim>\<open>fmt.Errorf\<close> and the result
  dropped, so neither reaches the caller: the function goes on with whatever was read and
  decoded.
\<close>

definition GetProofStatus :: "env \<Rightarrow> trace \<Rightarrow> string \<Rightarrow> string \<times> bytes \<times> error option" where
  "GetProofStatus E tr proofId =
     (let url = KonaServerUrl (Cfg E) @ ''/status/'' @ proofId in
      case http_NewRequest E ''GET'' url of
        Some err \<Rightarrow> ('''', None, Some (Wrap ''failed to create request'' err))
      | None \<Rightarrow>
          (case client_Do E tr ''GET'' url of
             Inl err \<Rightarrow> ('''', None, Some (Wrap ''failed to send request'' err))
           | Inr resp \<Rightarrow>
               (let body = ReadAll_body resp;
                    response = snd (json_Unmarshal_ProofStatus E body)
                in (Status response, Proof response, None))))"

subsection \<open>ProcessPendingProofs\<close>

text \<open>
  The loop \<^verbatim>\<open>for i := 0; i < 2; i++\<close> that inserts the two halves; the first argument counts
  the iterations left.
\<close>

fun split_loop :: "nat \<Rightarrow> env \<Rightarrow> ProofRequest \<Rightarrow> u64 \<Rightarrow> u64 \<Rightarrow> trace \<Rightarrow> error option \<times> trace" where
  "split_loop 0 E req tmpStart tmpEnd tr = (None, tr)"
| "split_loop (Suc n) E req tmpStart tmpEnd tr =
     (case db_call E (NewEntry ''SPAN'' tmpStart tmpEnd) tr of
        (Some err, tr') \<Rightarrow> (Some err, tr')
      | (None, tr') \<Rightarrow> split_loop n E req (tmpEnd + 1) (EndBlock req) tr')"

text \<open>
  The timeout test \<^verbatim>\<open>time.Now().Unix() > req.ProofRequestTime + l.DriverSetup.Cfg.MaxProofTime\<close>,
  a comparison of two \<^verbatim>\<open>int64\<close> values.
\<close>

definition timeout :: "env \<Rightarrow> trace \<Rightarrow> ProofRequest \<Rightarrow> bool" where
  "timeout E tr req = (ProofRequestTime req + MaxProofTime (Cfg E) <s time_Now_Unix E tr)"

text \<open>
  One iteration of \<^verbatim>\<open>for _, req := range reqs\<close>. The error of \<^verbatim>\<open>GetProofStatus\<close> is
  overwritten or ignored; the timeout test follows the status test without an \<^verbatim>\<open>else\<close>,
  and the split follows the AGG retry without an \<^verbatim>\<open>else\<close>.
\<close>

definition process_req :: "env \<Rightarrow> ProofRequest \<Rightarrow> trace \<Rightarrow> error option \<times> trace" where
  "process_req E req tr =
     (case GetProofStatus E tr (ProverRequestID req) of (status, proof_bytes, err) \<Rightarrow>
        then_ok
          (if status = ''PROOF_FULFILLED'' then db_call E (AddProof (ID req) proof_bytes) tr
           else (None, tr))
          (\<lambda>tr1.
             if timeout E tr1 req then
               then_ok (db_call E (UpdateProofStatus (ID req) ''FAILED'') tr1)
                 (\<lambda>tr2.
                    then_ok
                      (if Type req = TypeAGG
                       then db_call E (NewEntry ''AGG'' (StartBlock req) (EndBlock req)) tr2
                       else (None, tr2))
                      (\<lambda>tr3.
                         let tmpStart = StartBlock req;
                             tmpEnd = tmpStart + (EndBlock req - tmpStart) div 2
                         in split_loop (Suc (Suc 0)) E req tmpStart tmpEnd tr3))
             else (None, tr1)))"

fun pending_loop :: "env \<Rightarrow> ProofRequest list \<Rightarrow> trace \<Rightarrow> error option \<times> trace" where
  "pending_loop E [] tr = (None, tr)"
| "pending_loop E (req # reqs) tr =
     (case process_req E req tr of
        (Some err, tr') \<Rightarrow> (Some err, tr')
      | (None, tr') \<Rightarrow> pending_loop E reqs tr')"

definition ProcessPendingProofs :: "env \<Rightarrow> trace \<Rightarrow> error option \<times> trace" where
  "ProcessPendingProofs E tr =
     (case GetAllPendingProofs E tr of
        Inl err \<Rightarrow> (Some err, tr)
      | Inr reqs \<Rightarrow> pending_loop E reqs tr)"

subsection \<open>The prover client: submitting\<close>

text \<open>
  \<^verbatim>\<open>json.Marshal\<close> of the two request structs. Neither struct has a field that
  \<^verbatim>\<open>json.Marshal\<close> rejects, so the result is always \<open>Inr\<close>; the callers keep their error
  branch. \<^verbatim>\<open>AggProofRequest\<close> has the single field \<^verbatim>\<open>Subproofs\<close>.
\<close>

definition json_Marshal_SpanProofRequest :: "SpanProofRequest \<Rightarrow> error + json" where
  "json_Marshal_SpanProofRequest r =
     Inr (JObj [(''start'', JNum (unat (Start r))), (''end'', JNum (unat (End r)))])"

fun marshal_bytes :: "bytes \<Rightarrow> json" where
  "marshal_bytes None = JNull"
| "marshal_bytes (Some b) = JBase64 b"

fun marshal_subproofs :: "bytes slice \<Rightarrow> json" where
  "marshal_subproofs None = JNull"
| "marshal_subproofs (Some ps) = JArr (map marshal_bytes ps)"

definition json_Marshal_AggProofRequest :: "AggProofRequest \<Rightarrow> error + json" where
  "json_Marshal_AggProofRequest r = Inr (JObj [(''subproofs'', marshal_subproofs (Subproofs r))])"

text \<open>
  \<^verbatim>\<open>RequestProofFromServer\<close> returns Go's pair (proof id, err). Once the request object
  exists, \<^verbatim>\<open>client.Do\<close> sends it: the POST is recorded, and the server's answer may depend
  on it. As in \<^verbatim>\<open>GetProofStatus\<close>, the errors of reading and decoding the response are
  dropped.
\<close>

definition RequestProofFromServer :: "env \<Rightarrow> json \<Rightarrow> trace \<Rightarrow> (string \<times> error option) \<times> trace" where
  "RequestProofFromServer E jsonBody tr =
     (let url = KonaServerUrl (Cfg E) in
      case http_NewRequest E ''POST'' url of
        Some err \<Rightarrow> (('''', Some (Wrap ''failed to create request'' err)), tr)
      | None \<Rightarrow>
          (let tr' = tr @ [HttpPost url jsonBody] in
           case client_Do E tr' ''POST'' url of
             Inl err \<Rightarrow> (('''', Some (Wrap ''failed to send request'' err)), tr')
           | Inr resp \<Rightarrow>
               (let body = ReadAll_body resp;
                    response = snd (json_Unmarshal_ProofResponse E body)
                in ((ProofID response, None), tr'))))"

definition RequestSpanProof :: "env \<Rightarrow> u64 \<Rightarrow> u64 \<Rightarrow> trace \<Rightarrow> (string \<times> error option) \<times> trace" where
  "RequestSpanProof E start end_block tr =
     (let requestBody = \<lparr>Start = start, End = end_block\<rparr> in
      case json_Marshal_SpanProofRequest requestBody of
        Inl err \<Rightarrow> (('''', Some (Wrap ''failed to marshal request body'' err)), tr)
      | Inr jsonBody \<Rightarrow> RequestProofFromServer E jsonBody tr)"

definition RequestAggProof :: "env \<Rightarrow> u64 \<Rightarrow> u64 \<Rightarrow> trace \<Rightarrow> (string \<times> error option) \<times> trace" where
  "RequestAggProof E start end_block tr =
     (case GetSubproofs E tr start end_block of
        Inl err \<Rightarrow> (('''', Some (Wrap ''failed to get subproofs'' err)), tr)
      | Inr subproofs \<Rightarrow>
          (let requestBody = \<lparr>Subproofs = subproofs\<rparr> in
           case json_Marshal_AggProofRequest requestBody of
             Inl err \<Rightarrow> (('''', Some (Wrap ''failed to marshal request body'' err)), tr)
           | Inr jsonBody \<Rightarrow> RequestProofFromServer E jsonBody tr))"

text \<open>
  \<^verbatim>\<open>RequestKonaProof\<close>: both kinds of request are made for the range that starts at
  \<^verbatim>\<open>prevConfirmedBlock = p.StartBlock - 1\<close> (unsigned 64-bit subtraction).
\<close>

definition RequestKonaProof :: "env \<Rightarrow> ProofRequest \<Rightarrow> trace \<Rightarrow> error option \<times> trace" where
  "RequestKonaProof E p tr =
     (let prevConfirmedBlock = StartBlock p - 1 in
      case
        (if Type p = TypeAGG then
           (case RequestAggProof E prevConfirmedBlock (EndBlock p) tr of
              ((proofId, Some err), tr') \<Rightarrow> Inl (Wrap ''failed to request AGG proof'' err, tr')
            | ((proofId, None), tr') \<Rightarrow> Inr (proofId, tr'))
         else if Type p = TypeSPAN then
           (case RequestSpanProof E prevConfirmedBlock (EndBlock p) tr of
              ((proofId, Some err), tr') \<Rightarrow> Inl (Wrap ''failed to request SPAN proof'' err, tr')
            | ((proofId, None), tr') \<Rightarrow> Inr (proofId, tr'))
         else Inl (Error ''unknown proof type'', tr))
      of
        Inl (err, tr') \<Rightarrow> (Some err, tr')
      | Inr (proofId, tr') \<Rightarrow>
          (case db_call E (SetProverRequestID (ID p) proofId) tr' of
             (Some err, tr'') \<Rightarrow> (Some (Wrap ''failed to set prover request ID'' err), tr'')
           | (None, tr'') \<Rightarrow> (None, tr'')))"

subsection \<open>RequestQueuedProofs and its goroutines\<close>

text \<open>
  \<^verbatim>\<open>RequestQueuedProofs\<close> starts one goroutine per unrequested entry and returns without
  waiting for them. The goroutine's body receives the entry as its parameter \<^verbatim>\<open>p\<close>, but two
  of its statements read the loop variable \<^verbatim>\<open>proof\<close> of the enclosing function instead:
  \<^verbatim>\<open>UpdateProofStatus(proof.ID, "REQ")\<close> and \<^verbatim>\<open>UpdateProofStatus(proof.ID, "FAILED")\<close>.

  The model is an interleaving of the function's own thread and the goroutines. A step of
  the main thread is one iteration of the loop; a step of a goroutine is one of its three
  calls together with the test of the call's error. A schedule names, step by step, the
  thread that moves: the main thread, or the \<open>k\<close>-th goroutine started (counted from 0).
  (The goroutines also assign the enclosing function's variable \<^verbatim>\<open>err\<close>; in the model each
  goroutine tests the result of its own call, as it does when no other goroutine assigns
  \<^verbatim>\<open>err\<close> between a call and its test.)
\<close>

datatype thread = Main | Goroutine nat

datatype worker_pc = AtUpdateREQ | AtRequest | AtRevert | Finished

record worker =
  w_p :: ProofRequest
  w_pc :: worker_pc

record rq_state =
  rq_rest :: "ProofRequest list"
  rq_proof :: ProofRequest
  rq_workers :: "worker list"
  rq_result :: "error option option"
  rq_trace :: trace

text \<open>
  The value a goroutine finds in \<^verbatim>\<open>proof\<close>: with one variable per iteration it is the entry
  of the iteration that started the goroutine (the value \<^verbatim>\<open>p\<close> was copied from); with one
  variable per loop it is whatever the loop assigned last.
\<close>

definition closure_proof :: "env \<Rightarrow> rq_state \<Rightarrow> worker \<Rightarrow> ProofRequest" where
  "closure_proof E st w = (if loopvar_per_iteration E then w_p w else rq_proof st)"

text \<open>The \<^verbatim>\<open>go\<close> statement copies \<^verbatim>\<open>proof\<close> into the new goroutine's \<^verbatim>\<open>p\<close>.\<close>

definition spawn :: "ProofRequest \<Rightarrow> rq_state \<Rightarrow> rq_state" where
  "spawn x st = st\<lparr>rq_workers := rq_workers st @ [\<lparr>w_p = x, w_pc = AtUpdateREQ\<rparr>]\<rparr>"

text \<open>
  One iteration of \<^verbatim>\<open>for _, proof := range unrequestedProofs\<close>; once the entries are
  exhausted the function returns \<^verbatim>\<open>nil\<close>. For an AGG entry a failed checkpoint ends the
  function; the value \<^verbatim>\<open>AddL1BlockInfo\<close> returns is not looked at.
\<close>

definition main_step :: "env \<Rightarrow> rq_state \<Rightarrow> rq_state" where
  "main_step E st =
     (case rq_result st of
        Some r \<Rightarrow> st
      | None \<Rightarrow>
          (case rq_rest st of
             [] \<Rightarrow> st\<lparr>rq_result := Some None\<rparr>
           | x # xs \<Rightarrow>
               (let st1 = st\<lparr>rq_proof := x, rq_rest := xs\<rparr> in
                if Type x = TypeAGG then
                  (case checkpointBlockHash E (rq_trace st1) of
                     Inl err \<Rightarrow> st1\<lparr>rq_result := Some (Some err)\<rparr>
                   | Inr (blockNumber, blockHash) \<Rightarrow>
                       (case db_call E (AddL1BlockInfo (StartBlock x) (EndBlock x) blockNumber blockHash)
                               (rq_trace st1) of
                          (ignored, tr') \<Rightarrow> spawn x (st1\<lparr>rq_trace := tr'\<rparr>)))
                else spawn x st1)))"

definition set_pc :: "nat \<Rightarrow> worker_pc \<Rightarrow> trace \<Rightarrow> rq_state \<Rightarrow> rq_state" where
  "set_pc k pc tr st =
     st\<lparr>rq_workers := (rq_workers st)[k := (rq_workers st ! k)\<lparr>w_pc := pc\<rparr>], rq_trace := tr\<rparr>"

definition worker_step :: "env \<Rightarrow> nat \<Rightarrow> rq_state \<Rightarrow> rq_state" where
  "worker_step E k st =
     (if k < length (rq_workers st) then
        (let w = rq_workers st ! k in
         case w_pc w of
           AtUpdateREQ \<Rightarrow>
             (case db_call E (UpdateProofStatus (ID (closure_proof E st w)) ''REQ'') (rq_trace st) of
                (Some err, tr') \<Rightarrow> set_pc k Finished tr' st
              | (None, tr') \<Rightarrow> set_pc k AtRequest tr' st)
         | AtRequest \<Rightarrow>
             (case RequestKonaProof E (w_p w) (rq_trace st) of
                (Some err, tr') \<Rightarrow> set_pc k AtRevert tr' st
              | (None, tr') \<Rightarrow> set_pc k Finished tr' st)
         | AtRevert \<Rightarrow>
             (case db_call E (UpdateProofStatus (ID (closure_proof E st w)) ''FAILED'') (rq_trace st) of
                (ignored, tr') \<Rightarrow> set_pc k Finished tr' st)
         | Finished \<Rightarrow> st)
      else st)"

fun step :: "env \<Rightarrow> thread \<Rightarrow> rq_state \<Rightarrow> rq_state" where
  "step E Main st = main_step E st"
| "step E (Goroutine k) st = worker_step E k st"

fun run :: "env \<Rightarrow> thread list \<Rightarrow> rq_state \<Rightarrow> rq_state" where
  "run E [] st = st"
| "run E (t # ts) st = run E ts (step E t st)"

text \<open>The zero value of the loop variable before the first iteration.\<close>

definition zero_ProofRequest :: ProofRequest where
  "zero_ProofRequest =
     \<lparr>ID = 0, Type = TypeOther, StartBlock = 0, EndBlock = 0, ProverRequestID = '''',
      ProofRequestTime = 0\<rparr>"

definition RequestQueuedProofs :: "env \<Rightarrow> thread list \<Rightarrow> trace \<Rightarrow> rq_state" where
  "RequestQueuedProofs E schedule tr =
     (let st0 = \<lparr>rq_rest = [], rq_proof = zero_ProofRequest, rq_workers = [], rq_result = None,
                 rq_trace = tr\<rparr> in
      case GetAllUnrequestedProofs E tr of
        Inl err \<Rightarrow> st0\<lparr>rq_result := Some (Some (Wrap ''failed to get unrequested proofs'' err))\<rparr>
      | Inr unrequestedProofs \<Rightarrow> run E schedule (st0\<lparr>rq_rest := unrequestedProofs\<rparr>))"

subsection \<open>DeriveNewSpanBatches\<close>

text \<open>
  The chunk bound is computed in floating point:
  \<^verbatim>\<open>tmpEnd := uint64(math.Min(float64(maxEnd), float64(end)))\<close>. The conversion of a
  \<^verbatim>\<open>uint64\<close> to \<^verbatim>\<open>float64\<close> rounds to 53 significant bits, to nearest with ties to even.
  Every value that occurs is a whole number between \<open>0\<close> and \<open>2^64\<close>, so the floats are
  modelled by the natural numbers they denote. \<open>floorlog 2 n\<close> is the number of binary
  digits of \<open>n\<close>; a number with more than 53 digits is rounded at its lowest \<open>sh\<close> digits.
\<close>

definition round_half_even :: "nat \<Rightarrow> nat \<Rightarrow> nat" where
  "round_half_even sh n =
     (if n mod 2 ^ sh < 2 ^ (sh - 1) \<or> (n mod 2 ^ sh = 2 ^ (sh - 1) \<and> even (n div 2 ^ sh))
      then n div 2 ^ sh else n div 2 ^ sh + 1) * 2 ^ sh"

definition float64 :: "u64 \<Rightarrow> nat" where
  "float64 x =
     (if floorlog 2 (unat x) \<le> 53 then unat x
      else round_half_even (floorlog 2 (unat x) - 53) (unat x))"

definition math_Min :: "nat \<Rightarrow> nat \<Rightarrow> nat" where
  "math_Min x y = min x y"

text \<open>
  The conversion back is exact below \<open>2^64\<close>; the float \<open>2^64\<close> (which \<open>float64\<close> yields for
  the largest \<^verbatim>\<open>uint64\<close> values) does not fit, and Go leaves the result to the implementation.
\<close>

definition uint64_of_float64 :: "env \<Rightarrow> nat \<Rightarrow> u64" where
  "uint64_of_float64 E v = (if v < 2 ^ 64 then word_of_nat v else uint64_of_2p64 E)"

text \<open>
  The inner \<^verbatim>\<open>for\<close> loop (the chunking loop). It has no bound of its own: it ends when a
  chunk ends at \<^verbatim>\<open>end\<close> or when \<^verbatim>\<open>NewEntry\<close> fails. The first argument is fuel; \<open>None\<close> means
  the loop was still running when the fuel ran out.
\<close>

fun chunk_loop :: "nat \<Rightarrow> env \<Rightarrow> u64 \<Rightarrow> u64 \<Rightarrow> trace \<Rightarrow> (error option \<times> trace) option" where
  "chunk_loop 0 E end_block tmpStart tr = None"
| "chunk_loop (Suc n) E end_block tmpStart tr =
     (let maxEnd = tmpStart + MaxBlockRangePerSpanProof (Cfg E) - 1;
          tmpEnd = uint64_of_float64 E (math_Min (float64 maxEnd) (float64 end_block))
      in case db_call E (NewEntry ''SPAN'' tmpStart tmpEnd) tr of
           (Some err, tr') \<Rightarrow> Some (Some err, tr')
         | (None, tr') \<Rightarrow>
             if tmpEnd = end_block then Some (None, tr')
             else chunk_loop n E end_block (tmpEnd + 1) tr')"

text \<open>
  The outer \<^verbatim>\<open>for\<close> loop: one span batch per iteration, until the decoder finds none.
  \<open>m\<close> is the fuel handed to each run of the chunking loop.
\<close>

fun derive_loop :: "nat \<Rightarrow> nat \<Rightarrow> env \<Rightarrow> u64 \<Rightarrow> trace \<Rightarrow> (error option \<times> trace) option" where
  "derive_loop m 0 E nextBlock tr = None"
| "derive_loop m (Suc n) E nextBlock tr =
     (case GenerateSpanBatchRange E tr nextBlock (MaxSpanBatchDeviation (Cfg E)) of
        (start, end_block, err) \<Rightarrow>
          if err = Some NoSpanBatchFoundError then Some (None, tr)
          else if err = Some MaxDeviationExceededError \<or> err = None then
            (case chunk_loop m E end_block nextBlock tr of
               None \<Rightarrow> None
             | Some (Some e, tr') \<Rightarrow> Some (Some e, tr')
             | Some (None, tr') \<Rightarrow> derive_loop m n E (end_block + 1) tr')
          else Some (err, tr))"

text \<open>
  \<^verbatim>\<open>DeriveNewSpanBatches\<close>. The watermark comes from the store, or from the contract when the
  store has no entry (\<^verbatim>\<open>Uint64()\<close> keeps the low 64 bits of the contract's 256-bit answer).
  \<^verbatim>\<open>FetchBatchesFromChain\<close> and \<^verbatim>\<open>GenerateSpanBatchRange\<close> only hand their arguments to the
  batch decoder and the L1 clients, so they are answers of the environment.
\<close>

definition DeriveNewSpanBatches :: "nat \<Rightarrow> env \<Rightarrow> trace \<Rightarrow> (error option \<times> trace) option" where
  "DeriveNewSpanBatches fuel E tr =
     (case
        (case GetLatestEndBlock E tr of
           Inr latestEndBlock \<Rightarrow> Inr latestEndBlock
         | Inl err \<Rightarrow>
             if IsNotFound err then
               (case LatestBlockNumber E tr of
                  Inl err' \<Rightarrow> Inl (Wrap ''failed to get latest output index'' err')
                | Inr latestEndBlockU256 \<Rightarrow> Inr (word_of_nat latestEndBlockU256))
             else Inl err)
      of
        Inl err \<Rightarrow> Some (Some err, tr)
      | Inr latestEndBlock \<Rightarrow>
          (let nextBlock = latestEndBlock + 1 in
           case FetchBatchesFromChain E tr nextBlock of
             Some err \<Rightarrow> Some (Some err, tr)
           | None \<Rightarrow> derive_loop fuel fuel E nextBlock tr))"

text \<open>
  What it means for a list of ranges to be consecutive chunks of size at most \<open>M\<close> that
  exactly cover the blocks \<open>s\<close> to \<open>e\<close>: the first range starts at \<open>s\<close>, each range is
  nonempty and has at most \<open>M\<close> blocks, each next range starts one block after the end of
  the one before, and the last range ends at \<open>e\<close>.
\<close>

fun covers :: "nat \<Rightarrow> nat \<Rightarrow> nat \<Rightarrow> (u64 \<times> u64) list \<Rightarrow> bool" where
  "covers M s e [] = False"
| "covers M s e [(a, b)] = (unat a = s \<and> unat b = e \<and> s \<le> e \<and> e - s + 1 \<le> M)"
| "covers M s e ((a, b) # r # rs) =
     (unat a = s \<and> s \<le> unat b \<and> unat b - s + 1 \<le> M \<and> covers M (unat b + 1) e (r # rs))"

subsection \<open>Concrete collaborators and entries\<close>

text \<open>
  An environment for running the functions on concrete inputs: the store accepts every
  call and holds no rows, it has two subproofs for every range, every poll of the prover is
  answered with a status other than \<^verbatim>\<open>PROOF_FULFILLED\<close>, every submission with the proof id
  \<^verbatim>\<open>kona-1\<close>, the clock reads 10000, the L1 checkpoint is block 77, the contract's latest
  block is 1000 and the decoder finds no span batch. \<^verbatim>\<open>MaxProofTime\<close> is 3600 seconds and
  \<^verbatim>\<open>MaxBlockRangePerSpanProof\<close> is 100 blocks.
\<close>

definition idle_env :: env where
  "idle_env =
     \<lparr>Cfg = \<lparr>MaxProofTime = 3600, KonaServerUrl = ''http://prover'',
              MaxBlockRangePerSpanProof = 100, MaxSpanBatchDeviation = 1000\<rparr>,
      db_reply = (\<lambda>tr c. None),
      GetAllPendingProofs = (\<lambda>tr. Inr []),
      GetAllUnrequestedProofs = (\<lambda>tr. Inr []),
      GetSubproofs = (\<lambda>tr s e. Inr (Some [Some [1], Some [2]])),
      GetLatestEndBlock = (\<lambda>tr. Inl NotFoundError),
      time_Now_Unix = (\<lambda>tr. 10000),
      http_NewRequest = (\<lambda>m u. None),
      client_Do = (\<lambda>tr m u. Inr \<lparr>ReadAll_body = ''response'', ReadAll_err = None\<rparr>),
      json_Unmarshal_ProofStatus = (\<lambda>b. (None, \<lparr>Status = ''PROOF_REQUESTED'', Proof = None\<rparr>)),
      json_Unmarshal_ProofResponse = (\<lambda>b. (None, \<lparr>ProofID = ''kona-1''\<rparr>)),
      checkpointBlockHash = (\<lambda>tr. Inr (77, ''0xabc'')),
      LatestBlockNumber = (\<lambda>tr. Inr 1000),
      FetchBatchesFromChain = (\<lambda>tr n. None),
      GenerateSpanBatchRange = (\<lambda>tr n d. (0, 0, Some NoSpanBatchFoundError)),
      uint64_of_2p64 = 0,
      loopvar_per_iteration = False\<rparr>"

text \<open>The environment with the given rows in state \<^verbatim>\<open>REQ\<close>, and with the given rows unrequested.\<close>

definition pending_env :: "ProofRequest list \<Rightarrow> env" where
  "pending_env reqs = idle_env\<lparr>GetAllPendingProofs := (\<lambda>tr. Inr reqs)\<rparr>"

definition unrequested_env :: "ProofRequest list \<Rightarrow> env" where
  "unrequested_env reqs = idle_env\<lparr>GetAllUnrequestedProofs := (\<lambda>tr. Inr reqs)\<rparr>"

text \<open>A prover that reports the proof as fulfilled, with three bytes of proof.\<close>

definition fulfilled_env :: "ProofRequest list \<Rightarrow> env" where
  "fulfilled_env reqs =
     (pending_env reqs)\<lparr>json_Unmarshal_ProofStatus :=
        (\<lambda>b. (None, \<lparr>Status = ''PROOF_FULFILLED'', Proof = Some [1, 2, 3]\<rparr>))\<rparr>"

text \<open>
  A prover whose response cannot be read to the end and is not JSON: \<^verbatim>\<open>ReadAll\<close> and
  \<^verbatim>\<open>json.Unmarshal\<close> both return an error, and the zero value of the struct is left as it was.
\<close>

definition garbled_env :: env where
  "garbled_env =
     idle_env\<lparr>client_Do := (\<lambda>tr m u. Inr \<lparr>ReadAll_body = ''<html>'',
                                             ReadAll_err = Some (Error ''unexpected EOF'')\<rparr>),
              json_Unmarshal_ProofStatus :=
                (\<lambda>b. (Some (Error ''invalid character''), \<lparr>Status = '''', Proof = None\<rparr>)),
              json_Unmarshal_ProofResponse :=
                (\<lambda>b. (Some (Error ''invalid character''), \<lparr>ProofID = ''''\<rparr>))\<rparr>"

text \<open>A store whose \<^verbatim>\<open>AddL1BlockInfo\<close> fails, every other call being accepted.\<close>

fun no_checkpoint_reply :: "trace \<Rightarrow> call \<Rightarrow> error option" where
  "no_checkpoint_reply tr (AddL1BlockInfo s e n h) = Some (Error ''proof request not found'')"
| "no_checkpoint_reply tr c = None"

definition no_checkpoint_env :: "ProofRequest list \<Rightarrow> env" where
  "no_checkpoint_env reqs = (unrequested_env reqs)\<lparr>db_reply := no_checkpoint_reply\<rparr>"

text \<open>
  The derivation scenario: an empty store, the contract's latest block 1000, and a decoder
  that finds the span batch \<open>[1001, 1350]\<close> for block 1001 and none after it.
\<close>

definition scenario_env :: env where
  "scenario_env =
     idle_env\<lparr>GenerateSpanBatchRange :=
        (\<lambda>tr n d. if n = 1001 then (1001, 1350, None) else (0, 0, Some NoSpanBatchFoundError))\<rparr>"

text \<open>The same environment with chunks of at most four blocks.\<close>

definition four_block_env :: env where
  "four_block_env = idle_env\<lparr>Cfg := (Cfg idle_env)\<lparr>MaxBlockRangePerSpanProof := 4\<rparr>\<rparr>"

text \<open>Entries. All were requested at time 1000, so at time 10000 all are past the deadline.\<close>

definition span_1001_1100 :: ProofRequest where
  "span_1001_1100 =
     \<lparr>ID = 3, Type = TypeSPAN, StartBlock = 1001, EndBlock = 1100,
      ProverRequestID = ''kona-3'', ProofRequestTime = 1000\<rparr>"

definition span_1101_1200 :: ProofRequest where
  "span_1101_1200 =
     \<lparr>ID = 4, Type = TypeSPAN, StartBlock = 1101, EndBlock = 1200,
      ProverRequestID = ''kona-4'', ProofRequestTime = 1000\<rparr>"

definition span_1001_1001 :: ProofRequest where
  "span_1001_1001 =
     \<lparr>ID = 5, Type = TypeSPAN, StartBlock = 1001, EndBlock = 1001,
      ProverRequestID = ''kona-5'', ProofRequestTime = 1000\<rparr>"

definition span_0_99 :: ProofRequest where
  "span_0_99 =
     \<lparr>ID = 6, Type = TypeSPAN, StartBlock = 0, EndBlock = 99,
      ProverRequestID = ''kona-6'', ProofRequestTime = 1000\<rparr>"

definition agg_1001_1300 :: ProofRequest where
  "agg_1001_1300 =
     \<lparr>ID = 7, Type = TypeAGG, StartBlock = 1001, EndBlock = 1300,
      ProverRequestID = ''kona-7'', ProofRequestTime = 1000\<rparr>"

definition span_42 :: ProofRequest where
  "span_42 =
     \<lparr>ID = 42, Type = TypeSPAN, StartBlock = 1001, EndBlock = 1100,
      ProverRequestID = ''kona-42'', ProofRequestTime = 1000\<rparr>"

text \<open>The member names of a JSON object.\<close>

fun json_keys :: "json \<Rightarrow> string list" where
  "json_keys (JObj members) = map fst members"
| "json_keys j = []"

section \<open>Properties\<close>

subsection \<open>Auxiliary facts\<close>

text \<open>The fields of the concrete environments, so that runs can be evaluated field by field.\<close>

lemma idle_env_fields [simp]:
  "Cfg idle_env = \<lparr>MaxProofTime = 3600, KonaServerUrl = ''http://prover'', MaxBlockRangePerSpanProof = 100, MaxSpanBatchDeviation = 1000\<rparr>"
  "db_reply idle_env = (\<lambda>tr c. None)"
  "GetAllPendingProofs idle_env = (\<lambda>tr. Inr [])"
  "GetAllUnrequestedProofs idle_env = (\<lambda>tr. Inr [])"
  "GetSubproofs idle_env = (\<lambda>tr s e. Inr (Some [Some [1], Some [2]]))"
  "GetLatestEndBlock idle_env = (\<lambda>tr. Inl NotFoundError)"
  "time_Now_Unix idle_env = (\<lambda>tr. 10000)"
  "http_NewRequest idle_env = (\<lambda>m u. None)"
  "client_Do idle_env = (\<lambda>tr m u. Inr \<lparr>ReadAll_body = ''response'', ReadAll_err = None\<rparr>)"
  "json_Unmarshal_ProofStatus idle_env = (\<lambda>b. (None, \<lparr>Status = ''PROOF_REQUESTED'', Proof = None\<rparr>))"
  "json_Unmarshal_ProofResponse idle_env = (\<lambda>b. (None, \<lparr>ProofID = ''kona-1''\<rparr>))"
  "checkpointBlockHash idle_env = (\<lambda>tr. Inr (77, ''0xabc''))"
  "LatestBlockNumber idle_env = (\<lambda>tr. Inr 1000)"
  "FetchBatchesFromChain idle_env = (\<lambda>tr n. None)"
  "GenerateSpanBatchRange idle_env = (\<lambda>tr n d. (0, 0, Some NoSpanBatchFoundError))"
  "uint64_of_2p64 idle_env = 0"
  "loopvar_per_iteration idle_env = False"
  by (simp_all add: idle_env_def)

lemma pending_env_fields [simp]:
  "Cfg (pending_env reqs) = Cfg idle_env"
  "db_reply (pending_env reqs) = db_reply idle_env"
  "GetAllPendingProofs (pending_env reqs) = (\<lambda>tr. Inr reqs)"
  "GetAllUnrequestedProofs (pending_env reqs) = GetAllUnrequestedProofs idle_env"
  "GetSubproofs (pending_env reqs) = GetSubproofs idle_env"
  "GetLatestEndBlock (pending_env reqs) = GetLatestEndBlock idle_env"
  "time_Now_Unix (pending_env reqs) = time_Now_Unix idle_env"
  "http_NewRequest (pending_env reqs) = http_NewRequest idle_env"
  "client_Do (pending_env reqs) = client_Do idle_env"
  "json_Unmarshal_ProofStatus (pending_env reqs) = json_Unmarshal_ProofStatus idle_env"
  "json_Unmarshal_ProofResponse (pending_env reqs) = json_Unmarshal_ProofResponse idle_env"
  "checkpointBlockHash (pending_env reqs) = checkpointBlockHash idle_env"
  "LatestBlockNumber (pending_env reqs) = LatestBlockNumber idle_env"
  "FetchBatchesFromChain (pending_env reqs) = FetchBatchesFromChain idle_env"
  "GenerateSpanBatchRange (pending_env reqs) = GenerateSpanBatchRange idle_env"
  "uint64_of_2p64 (pending_env reqs) = uint64_of_2p64 idle_env"
  "loopvar_per_iteration (pending_env reqs) = loopvar_per_iteration idle_env"
  by (simp_all add: pending_env_def)

lemma unrequested_env_fields [simp]:
  "Cfg (unrequested_env reqs) = Cfg idle_env"
  "db_reply (unrequested_env reqs) = db_reply idle_env"
  "GetAllPendingProofs (unrequested_env reqs) = GetAllPendingProofs idle_env"
  "GetAllUnrequestedProofs (unrequested_env reqs) = (\<lambda>tr. Inr reqs)"
  "GetSubproofs (unrequested_env reqs) = GetSubproofs idle_env"
  "GetLatestEndBlock (unrequested_env reqs) = GetLatestEndBlock idle_env"
  "time_Now_Unix (unrequested_env reqs) = time_Now_Unix idle_env"
  "http_NewRequest (unrequested_env reqs) = http_NewRequest idle_env"
  "client_Do (unrequested_env reqs) = client_Do idle_env"
  "json_Unmarshal_ProofStatus (unrequested_env reqs) = json_Unmarshal_ProofStatus idle_env"
  "json_Unmarshal_ProofResponse (unrequested_env reqs) = json_Unmarshal_ProofResponse idle_env"
  "checkpointBlockHash (unrequested_env reqs) = checkpointBlockHash idle_env"
  "LatestBlockNumber (unrequested_env reqs) = LatestBlockNumber idle_env"
  "FetchBatchesFromChain (unrequested_env reqs) = FetchBatchesFromChain idle_env"
  "GenerateSpanBatchRange (unrequested_env reqs) = GenerateSpanBatchRange idle_env"
  "uint64_of_2p64 (unrequested_env reqs) = uint64_of_2p64 idle_env"
  "loopvar_per_iteration (unrequested_env reqs) = loopvar_per_iteration idle_env"
  by (simp_all add: unrequested_env_def)

lemma fulfilled_env_fields [simp]:
  "Cfg (fulfilled_env reqs) = Cfg (pending_env reqs)"
  "db_reply (fulfilled_env reqs) = db_reply (pending_env reqs)"
  "GetAllPendingProofs (fulfilled_env reqs) = GetAllPendingProofs (pending_env reqs)"
  "GetAllUnrequestedProofs (fulfilled_env reqs) = GetAllUnrequestedProofs (pending_env reqs)"
  "GetSubproofs (fulfilled_env reqs) = GetSubproofs (pending_env reqs)"
  "GetLatestEndBlock (fulfilled_env reqs) = GetLatestEndBlock (pending_env reqs)"
  "time_Now_Unix (fulfilled_env reqs) = time_Now_Unix (pending_env reqs)"
  "http_NewRequest (fulfilled_env reqs) = http_NewRequest (pending_env reqs)"
  "client_Do (fulfilled_env reqs) = client_Do (pending_env reqs)"
  "json_Unmarshal_ProofStatus (fulfilled_env reqs) = (\<lambda>b. (None, \<lparr>Status = ''PROOF_FULFILLED'', Proof = Some [1, 2, 3]\<rparr>))"
  "json_Unmarshal_ProofResponse (fulfilled_env reqs) = json_Unmarshal_ProofResponse (pending_env reqs)"
  "checkpointBlockHash (fulfilled_env reqs) = checkpointBlockHash (pending_env reqs)"
  "LatestBlockNumber (fulfilled_env reqs) = LatestBlockNumber (pending_env reqs)"
  "FetchBatchesFromChain (fulfilled_env reqs) = FetchBatchesFromChain (pending_env reqs)"
  "GenerateSpanBatchRange (fulfilled_env reqs) = GenerateSpanBatchRange (pending_env reqs)"
  "uint64_of_2p64 (fulfilled_env reqs) = uint64_of_2p64 (pending_env reqs)"
  "loopvar_per_iteration (fulfilled_env reqs) = loopvar_per_iteration (pending_env reqs)"
  by (simp_all add: fulfilled_env_def)

lemma garbled_env_fields [simp]:
  "Cfg (garbled_env) = Cfg idle_env"
  "db_reply (garbled_env) = db_reply idle_env"
  "GetAllPendingProofs (garbled_env) = GetAllPendingProofs idle_env"
  "GetAllUnrequestedProofs (garbled_env) = GetAllUnrequestedProofs idle_env"
  "GetSubproofs (garbled_env) = GetSubproofs idle_env"
  "GetLatestEndBlock (garbled_env) = GetLatestEndBlock idle_env"
  "time_Now_Unix (garbled_env) = time_Now_Unix idle_env"
  "http_NewRequest (garbled_env) = http_NewRequest idle_env"
  "client_Do (garbled_env) = (\<lambda>tr m u. Inr \<lparr>ReadAll_body = ''<html>'', ReadAll_err = Some (Error ''unexpected EOF'')\<rparr>)"
  "json_Unmarshal_ProofStatus (garbled_env) = (\<lambda>b. (Some (Error ''invalid character''), \<lparr>Status = '''', Proof = None\<rparr>))"
  "json_Unmarshal_ProofResponse (garbled_env) = (\<lambda>b. (Some (Error ''invalid character''), \<lparr>ProofID = ''''\<rparr>))"
  "checkpointBlockHash (garbled_env) = checkpointBlockHash idle_env"
  "LatestBlockNumber (garbled_env) = LatestBlockNumber idle_env"
  "FetchBatchesFromChain (garbled_env) = FetchBatchesFromChain idle_env"
  "GenerateSpanBatchRange (garbled_env) = GenerateSpanBatchRange idle_env"
  "uint64_of_2p64 (garbled_env) = uint64_of_2p64 idle_env"
  "loopvar_per_iteration (garbled_env) = loopvar_per_iteration idle_env"
  by (simp_all add: garbled_env_def)

lemma no_checkpoint_env_fields [simp]:
  "Cfg (no_checkpoint_env reqs) = Cfg (unrequested_env reqs)"
  "db_reply (no_checkpoint_env reqs) = no_checkpoint_reply"
  "GetAllPendingProofs (no_checkpoint_env reqs) = GetAllPendingProofs (unrequested_env reqs)"
  "GetAllUnrequestedProofs (no_checkpoint_env reqs) = GetAllUnrequestedProofs (unrequested_env reqs)"
  "GetSubproofs (no_checkpoint_env reqs) = GetSubproofs (unrequested_env reqs)"
  "GetLatestEndBlock (no_checkpoint_env reqs) = GetLatestEndBlock (unrequested_env reqs)"
  "time_Now_Unix (no_checkpoint_env reqs) = time_Now_Unix (unrequested_env reqs)"
  "http_NewRequest (no_checkpoint_env reqs) = http_NewRequest (unrequested_env reqs)"
  "client_Do (no_checkpoint_env reqs) = client_Do (unrequested_env reqs)"
  "json_Unmarshal_ProofStatus (no_checkpoint_env reqs) = json_Unmarshal_ProofStatus (unrequested_env reqs)"
  "json_Unmarshal_ProofResponse (no_checkpoint_env reqs) = json_Unmarshal_ProofResponse (unrequested_env reqs)"
  "checkpointBlockHash (no_checkpoint_env reqs) = checkpointBlockHash (unrequested_env reqs)"
  "LatestBlockNumber (no_checkpoint_env reqs) = LatestBlockNumber (unrequested_env reqs)"
  "FetchBatchesFromChain (no_checkpoint_env reqs) = FetchBatchesFromChain (unrequested_env reqs)"
  "GenerateSpanBatchRange (no_checkpoint_env reqs) = GenerateSpanBatchRange (unrequested_env reqs)"
  "uint64_of_2p64 (no_checkpoint_env reqs) = uint64_of_2p64 (unrequested_env reqs)"
  "loopvar_per_iteration (no_checkpoint_env reqs) = loopvar_per_iteration (unrequested_env reqs)"
  by (simp_all add: no_checkpoint_env_def)

lemma scenario_env_fields [simp]:
  "Cfg (scenario_env) = Cfg idle_env"
  "db_reply (scenario_env) = db_reply idle_env"
  "GetAllPendingProofs (scenario_env) = GetAllPendingProofs idle_env"
  "GetAllUnrequestedProofs (scenario_env) = GetAllUnrequestedProofs idle_env"
  "GetSubproofs (scenario_env) = GetSubproofs idle_env"
  "GetLatestEndBlock (scenario_env) = GetLatestEndBlock idle_env"
  "time_Now_Unix (scenario_env) = time_Now_Unix idle_env"
  "http_NewRequest (scenario_env) = http_NewRequest idle_env"
  "client_Do (scenario_env) = client_Do idle_env"
  "json_Unmarshal_ProofStatus (scenario_env) = json_Unmarshal_ProofStatus idle_env"
  "json_Unmarshal_ProofResponse (scenario_env) = json_Unmarshal_ProofResponse idle_env"
  "checkpointBlockHash (scenario_env) = checkpointBlockHash idle_env"
  "LatestBlockNumber (scenario_env) = LatestBlockNumber idle_env"
  "FetchBatchesFromChain (scenario_env) = FetchBatchesFromChain idle_env"
  "GenerateSpanBatchRange (scenario_env) = (\<lambda>tr n d. if n = 1001 then (1001, 1350, None) else (0, 0, Some NoSpanBatchFoundError))"
  "uint64_of_2p64 (scenario_env) = uint64_of_2p64 idle_env"
  "loopvar_per_iteration (scenario_env) = loopvar_per_iteration idle_env"
  by (simp_all add: scenario_env_def)

lemma four_block_env_fields [simp]:
  "Cfg (four_block_env) = \<lparr>MaxProofTime = 3600, KonaServerUrl = ''http://prover'', MaxBlockRangePerSpanProof = 4, MaxSpanBatchDeviation = 1000\<rparr>"
  "db_reply (four_block_env) = db_reply idle_env"
  "GetAllPendingProofs (four_block_env) = GetAllPendingProofs idle_env"
  "GetAllUnrequestedProofs (four_block_env) = GetAllUnrequestedProofs idle_env"
  "GetSubproofs (four_block_env) = GetSubproofs idle_env"
  "GetLatestEndBlock (four_block_env) = GetLatestEndBlock idle_env"
  "time_Now_Unix (four_block_env) = time_Now_Unix idle_env"
  "http_NewRequest (four_block_env) = http_NewRequest idle_env"
  "client_Do (four_block_env) = client_Do idle_env"
  "json_Unmarshal_ProofStatus (four_block_env) = json_Unmarshal_ProofStatus idle_env"
  "json_Unmarshal_ProofResponse (four_block_env) = json_Unmarshal_ProofResponse idle_env"
  "checkpointBlockHash (four_block_env) = checkpointBlockHash idle_env"
  "LatestBlockNumber (four_block_env) = LatestBlockNumber idle_env"
  "FetchBatchesFromChain (four_block_env) = FetchBatchesFromChain idle_env"
  "GenerateSpanBatchRange (four_block_env) = GenerateSpanBatchRange idle_env"
  "uint64_of_2p64 (four_block_env) = uint64_of_2p64 idle_env"
  "loopvar_per_iteration (four_block_env) = loopvar_per_iteration idle_env"
  by (simp_all add: four_block_env_def)

lemma midpoint_unat:
  fixes s e :: u64
  assumes "s \<le> e"
  shows "unat (s + (e - s) div 2) = unat s + (unat e - unat s) div 2"
proof -
  have d: "unat ((e - s) div 2) = (unat e - unat s) div 2"
    using assms by (simp add: unat_div unat_sub)
  have "unat s \<le> unat e"
    using assms by (simp add: word_le_nat_alt)
  moreover have "unat e < 2 ^ 64"
    using unsigned_less [of e] by simp
  ultimately have "unat s + unat ((e - s) div 2) < 2 ^ LENGTH(64)"
    unfolding d by simp
  then show ?thesis
    unfolding d [symmetric] by (rule unat_add_lem [THEN iffD1])
qed

lemma midpoint_bounds:
  fixes s e :: u64
  assumes "s < e"
  shows "s \<le> s + (e - s) div 2" and "s + (e - s) div 2 < e"
proof -
  have le: "s \<le> e" using assms by simp
  have lt: "unat s < unat e" using assms by (simp add: word_less_nat_alt)
  show "s \<le> s + (e - s) div 2"
    by (simp add: word_le_nat_alt midpoint_unat [OF le])
  show "s + (e - s) div 2 < e"
    using lt by (simp add: word_less_nat_alt midpoint_unat [OF le])
qed

lemma unat_succ_below:
  fixes m e :: u64
  assumes "m < e"
  shows "unat (m + 1) = unat m + 1"
proof -
  have "unat m < unat e" using assms by (simp add: word_less_nat_alt)
  moreover have "unat e < 2 ^ 64" using unsigned_less [of e] by simp
  ultimately have "unat m + unat (1 :: u64) < 2 ^ LENGTH(64)" by simp
  then have "unat (m + 1) = unat m + unat (1 :: u64)"
    by (rule unat_add_lem [THEN iffD1])
  then show ?thesis by simp
qed

lemma split_ranges:
  fixes s m e :: u64
  assumes "s \<le> m" and "m < e"
  shows "{s..m} \<union> {m + 1..e} = {s..e}" and "{s..m} \<inter> {m + 1..e} = {}"
  using assms unat_succ_below [OF assms(2)]
  by (auto simp: word_le_nat_alt word_less_nat_alt)

lemma process_req_late_span:
  assumes "Type req = TypeSPAN" and "\<forall>t. timeout E t req"
    and "process_req E req t1 = (None, t')"
  shows "\<exists>t2. (t2 = t1 \<or> (\<exists>pb. t2 = t1 @ [AddProof (ID req) pb])) \<and>
           t' = t2 @ [UpdateProofStatus (ID req) ''FAILED'',
                      NewEntry ''SPAN'' (StartBlock req)
                        (StartBlock req + (EndBlock req - StartBlock req) div 2),
                      NewEntry ''SPAN'' (StartBlock req + (EndBlock req - StartBlock req) div 2 + 1)
                        (EndBlock req)]"
  using assms
  by (auto simp: process_req_def then_ok_def db_call_def Let_def
           split: prod.splits if_splits option.splits)

lemma pending_loop_split:
  "pending_loop E (pre @ req # post) tr0 = (None, tr) \<Longrightarrow>
   \<exists>t1 t'. pending_loop E pre tr0 = (None, t1) \<and> process_req E req t1 = (None, t') \<and>
           pending_loop E post t' = (None, tr)"
  by (induction pre arbitrary: tr0) (auto split: prod.splits option.splits)

lemma process_req_accepting:
  assumes "\<forall>t c. db_reply E t c = None"
  shows "\<exists>t'. process_req E req tr = (None, t')"
  using assms
  by (cases "GetProofStatus E tr (ProverRequestID req)")
     (simp add: process_req_def then_ok_def db_call_def Let_def)

lemma pending_loop_accepting:
  assumes "\<forall>t c. db_reply E t c = None"
  shows "\<exists>t'. pending_loop E reqs tr = (None, t')"
proof (induction reqs arbitrary: tr)
  case Nil
  show ?case by simp
next
  case (Cons req reqs)
  from process_req_accepting [OF assms] obtain t1 where "process_req E req tr = (None, t1)"
    by blast
  moreover from Cons.IH obtain t2 where "pending_loop E reqs t1 = (None, t2)"
    by blast
  ultimately show ?case by simp
qed

subsection \<open>ProcessPendingProofs: recovery after a timeout\<close>

text \<open>
  Claim C6. For every timed-out SPAN entry \<open>[s, e]\<close> with \<open>s < e\<close>, \<^verbatim>\<open>ProcessPendingProofs\<close>
  creates exactly two new SPAN entries \<open>[s, m]\<close> and \<open>[m+1, e]\<close> with \<open>m = s + (e - s) / 2\<close>
  (integer division), and the two ranges together are the failed range, with no gap and
  no overlap.

  The entry \<open>req\<close> stands anywhere in the list of pending entries, the store accepts
  every call, and the entry is past its deadline whenever the clock is read. Then
  \<^verbatim>\<open>ProcessPendingProofs\<close> returns \<^verbatim>\<open>nil\<close>. The entries before \<open>req\<close> are processed first, leaving
  a trace \<open>t1\<close>; the iteration for \<open>req\<close> adds \<^verbatim>\<open>AddProof\<close> if the prover reported the proof
  fulfilled, and then exactly the three calls \<^verbatim>\<open>UpdateProofStatus(id, "FAILED")\<close>,
  \<^verbatim>\<open>NewEntry("SPAN", s, m)\<close>, \<^verbatim>\<open>NewEntry("SPAN", m+1, e)\<close>; the entries after \<open>req\<close> are
  processed from there. The 64-bit computation of \<open>m\<close> does not wrap, and the intervals of
  block numbers \<open>[s, m]\<close> and \<open>[m+1, e]\<close> partition \<open>[s, e]\<close>. (That a new entry starts in state
  \<^verbatim>\<open>UNREQ\<close> is the store's doing, inside \<^verbatim>\<open>NewEntry\<close>.)
\<close>

theorem span_timeout_splits_at_midpoint:
  assumes accept: "\<forall>t c. db_reply E t c = None"
    and pend: "GetAllPendingProofs E tr0 = Inr (pre @ req # post)"
    and span: "Type req = TypeSPAN"
    and lt: "StartBlock req < EndBlock req"
    and late: "\<forall>t. timeout E t req"
    and m: "m = StartBlock req + (EndBlock req - StartBlock req) div 2"
  shows "\<exists>tr t1 t2.
           ProcessPendingProofs E tr0 = (None, tr) \<and>
           pending_loop E pre tr0 = (None, t1) \<and>
           (t2 = t1 \<or> (\<exists>pb. t2 = t1 @ [AddProof (ID req) pb])) \<and>
           process_req E req t1 =
             (None, t2 @ [UpdateProofStatus (ID req) ''FAILED'',
                          NewEntry ''SPAN'' (StartBlock req) m,
                          NewEntry ''SPAN'' (m + 1) (EndBlock req)]) \<and>
           pending_loop E post
             (t2 @ [UpdateProofStatus (ID req) ''FAILED'',
                    NewEntry ''SPAN'' (StartBlock req) m,
                    NewEntry ''SPAN'' (m + 1) (EndBlock req)]) = (None, tr) \<and>
           unat m = unat (StartBlock req) + (unat (EndBlock req) - unat (StartBlock req)) div 2 \<and>
           StartBlock req \<le> m \<and> m < EndBlock req \<and>
           {StartBlock req..m} \<union> {m + 1..EndBlock req} = {StartBlock req..EndBlock req} \<and>
           {StartBlock req..m} \<inter> {m + 1..EndBlock req} = {}"
proof -
  from pending_loop_accepting [OF accept] obtain tr where
    run: "pending_loop E (pre @ req # post) tr0 = (None, tr)"
    by blast
  with pend have ok: "ProcessPendingProofs E tr0 = (None, tr)"
    by (simp add: ProcessPendingProofs_def)
  from run obtain t1 t' where
    pre: "pending_loop E pre tr0 = (None, t1)" and
    body: "process_req E req t1 = (None, t')" and
    post: "pending_loop E post t' = (None, tr)"
    using pending_loop_split by blast
  from process_req_late_span [OF span late body] obtain t2 where
    t2: "t2 = t1 \<or> (\<exists>pb. t2 = t1 @ [AddProof (ID req) pb])" and
    t': "t' = t2 @ [UpdateProofStatus (ID req) ''FAILED'',
                    NewEntry ''SPAN'' (StartBlock req) m,
                    NewEntry ''SPAN'' (m + 1) (EndBlock req)]"
    unfolding m by blast
  have le: "StartBlock req \<le> EndBlock req" using lt by simp
  have um: "unat m = unat (StartBlock req) + (unat (EndBlock req) - unat (StartBlock req)) div 2"
    unfolding m by (rule midpoint_unat [OF le])
  have b1: "StartBlock req \<le> m" and b2: "m < EndBlock req"
    unfolding m by (rule midpoint_bounds [OF lt])+
  note r = split_ranges [OF b1 b2]
  from ok pre t2 body post um b1 b2 r show ?thesis
    unfolding t' by blast
qed

text \<open>
  The witness is scenario 3 of the specification: the SPAN \<open>[1001, 1100]\<close>, requested at
  time 1000 with \<^verbatim>\<open>MaxProofTime\<close> 3600, is polled at time 10000. It is marked \<^verbatim>\<open>FAILED\<close> and
  the entries \<open>[1001, 1050]\<close> and \<open>[1051, 1100]\<close> are inserted.
\<close>

theorem span_timeout_splits_at_midpoint_witness:
  "(\<forall>t c. db_reply (pending_env [span_1001_1100]) t c = None) \<and>
   GetAllPendingProofs (pending_env [span_1001_1100]) [] = Inr ([] @ span_1001_1100 # []) \<and>
   Type span_1001_1100 = TypeSPAN \<and>
   StartBlock span_1001_1100 < EndBlock span_1001_1100 \<and>
   (\<forall>t. timeout (pending_env [span_1001_1100]) t span_1001_1100) \<and>
   (1050 :: u64) = StartBlock span_1001_1100 + (EndBlock span_1001_1100 - StartBlock span_1001_1100) div 2 \<and>
   ProcessPendingProofs (pending_env [span_1001_1100]) [] =
     (None, [UpdateProofStatus 3 ''FAILED'', NewEntry ''SPAN'' 1001 1050,
             NewEntry ''SPAN'' 1051 1100]) \<and>
   {1001..1050} \<union> {1050 + 1..1100} = {1001..(1100 :: u64)} \<and>
   {1001..1050} \<inter> {1050 + 1..1100} = ({} :: u64 set)"
proof -
  let ?E = "pending_env [span_1001_1100]"
  have h0: "\<forall>t c. db_reply ?E t c = None"
    by simp
  have h1: "GetAllPendingProofs ?E [] = Inr ([] @ span_1001_1100 # [])"
    by simp
  have h3: "Type span_1001_1100 = TypeSPAN"
    by (simp add: span_1001_1100_def)
  have h4: "StartBlock span_1001_1100 < EndBlock span_1001_1100"
    by (simp add: span_1001_1100_def)
  have h5: "\<forall>t. timeout ?E t span_1001_1100"
    by (simp add: timeout_def word_sless_alt span_1001_1100_def)
  have h6: "(1050 :: u64) = StartBlock span_1001_1100 + (EndBlock span_1001_1100 - StartBlock span_1001_1100) div 2"
    by (simp add: span_1001_1100_def)
  have p: "ProcessPendingProofs ?E [] =
     (None, [UpdateProofStatus 3 ''FAILED'', NewEntry ''SPAN'' 1001 1050,
             NewEntry ''SPAN'' 1051 1100])"
    by (simp add: ProcessPendingProofs_def process_req_def GetProofStatus_def then_ok_def
          db_call_def timeout_def word_sless_alt span_1001_1100_def)
  from span_timeout_splits_at_midpoint [OF h0 h1 h3 h4 h5 h6]
  have "{StartBlock span_1001_1100..1050} \<union> {1050 + 1..EndBlock span_1001_1100} =
          {StartBlock span_1001_1100..EndBlock span_1001_1100} \<and>
        {StartBlock span_1001_1100..1050} \<inter> {1050 + 1..EndBlock span_1001_1100} = {}"
    by blast
  then have r: "{1001..1050} \<union> {1050 + 1..1100} = {1001..(1100 :: u64)} \<and>
        {1001..1050} \<inter> {1050 + 1..1100} = ({} :: u64 set)"
    by (simp add: span_1001_1100_def)
  from h0 h1 h3 h4 h5 h6 p r show ?thesis by blast
qed

text \<open>
  Claim C1. For every timed-out AGG request, \<^verbatim>\<open>ProcessPendingProofs\<close> marks the entry
  \<^verbatim>\<open>FAILED\<close> and creates exactly one new entry, an AGG request over the same range; it
  creates no new SPAN entry for it.

  The code does the first two and then runs on into the split: the statement
  \<^verbatim>\<open>if req.Type == proofrequest.TypeAGG { ... }\<close> has no \<^verbatim>\<open>else\<close>, and the split that the
  comment introduces with "If a SPAN proof failed" does not test the type. The run is
  scenario 4 of the specification, the AGG \<open>[1001, 1300]\<close> past its deadline, against a store
  that accepts every call: besides the AGG retry, the halves \<open>[1001, 1150]\<close> and
  \<open>[1151, 1300]\<close> are inserted as SPAN entries.
\<close>

theorem agg_timeout_also_inserts_span_halves:
  "ProcessPendingProofs (pending_env [agg_1001_1300]) [] =
     (None, [UpdateProofStatus 7 ''FAILED'', NewEntry ''AGG'' 1001 1300,
             NewEntry ''SPAN'' 1001 1150, NewEntry ''SPAN'' 1151 1300])"
  by (simp add: ProcessPendingProofs_def process_req_def GetProofStatus_def then_ok_def
        db_call_def timeout_def word_sless_alt agg_1001_1300_def)

text \<open>
  Claim C4. An entry's status only advances along UNREQ, REQ, then COMPLETE or FAILED; in
  particular, when the prover reports \<^verbatim>\<open>PROOF_FULFILLED\<close> for an entry that is past its
  deadline, \<^verbatim>\<open>ProcessPendingProofs\<close> does not move it from COMPLETE to FAILED and creates no
  recovery entries for it.

  In the code the timeout test follows the status test unconditionally. The run is entry
  42, a SPAN \<open>[1001, 1100]\<close> past its deadline whose proof the prover reports as fulfilled:
  the proof is stored with \<^verbatim>\<open>AddProof\<close> (which, as the source's comment says, sets the status
  to COMPLETE), then the same entry is sent to \<^verbatim>\<open>FAILED\<close> and its two halves are inserted.
\<close>

theorem fulfilled_past_deadline_is_failed_and_split:
  "ProcessPendingProofs (fulfilled_env [span_42]) [] =
     (None, [AddProof 42 (Some [1, 2, 3]), UpdateProofStatus 42 ''FAILED'',
             NewEntry ''SPAN'' 1001 1050, NewEntry ''SPAN'' 1051 1100])"
  by (simp add: ProcessPendingProofs_def process_req_def GetProofStatus_def then_ok_def
        db_call_def timeout_def word_sless_alt span_42_def)

text \<open>
  Claim C5. Splitting a timed-out SPAN never produces an empty range: every new SPAN entry
  has \<open>start_block \<le> end_block\<close>, and a split only happens for a range of at least two blocks.

  The loop that inserts the halves runs twice whatever the size of the range. For the
  one-block SPAN \<open>[1001, 1001]\<close> the midpoint is 1001, so the first entry is the failed range
  again and the second is \<open>[1002, 1001]\<close>, whose start exceeds its end.
\<close>

theorem single_block_span_timeout_inserts_empty_range:
  "ProcessPendingProofs (pending_env [span_1001_1001]) [] =
     (None, [UpdateProofStatus 5 ''FAILED'', NewEntry ''SPAN'' 1001 1001,
             NewEntry ''SPAN'' 1002 1001])"
  by (simp add: ProcessPendingProofs_def process_req_def GetProofStatus_def then_ok_def
        db_call_def timeout_def word_sless_alt span_1001_1001_def)

subsection \<open>The prover client\<close>

text \<open>
  Claim C7. Every operation of the prover client fails when the response body cannot be
  read or decoded: \<^verbatim>\<open>GetProofStatus\<close> returns an error rather than an empty status and a
  \<^verbatim>\<open>nil\<close> proof, and \<^verbatim>\<open>RequestProofFromServer\<close> an error rather than an empty proof id.

  Both functions build the error (\<^verbatim>\<open>fmt.Errorf("Error reading the response body ...")\<close>,
  \<^verbatim>\<open>fmt.Errorf("Error decoding JSON response ...")\<close>) and drop it. Against a server whose
  response breaks off and is not JSON, both return a \<^verbatim>\<open>nil\<close> error with the zero values.
\<close>

theorem garbled_response_is_reported_as_success:
  "client_Do garbled_env [] ''GET'' ''http://prover/status/kona-3'' =
     Inr \<lparr>ReadAll_body = ''<html>'', ReadAll_err = Some (Error ''unexpected EOF'')\<rparr> \<and>
   fst (json_Unmarshal_ProofStatus garbled_env ''<html>'') = Some (Error ''invalid character'') \<and>
   GetProofStatus garbled_env [] ''kona-3'' = ('''', None, None) \<and>
   fst (json_Unmarshal_ProofResponse garbled_env ''<html>'') = Some (Error ''invalid character'') \<and>
   RequestProofFromServer garbled_env (JObj [(''start'', JNum 1000), (''end'', JNum 1100)]) [] =
     (('''', None), [HttpPost ''http://prover'' (JObj [(''start'', JNum 1000), (''end'', JNum 1100)])])"
  by (simp add: GetProofStatus_def RequestProofFromServer_def)

lemma RequestProofFromServer_trace:
  assumes "http_NewRequest E ''POST'' (KonaServerUrl (Cfg E)) = None"
  shows "snd (RequestProofFromServer E jsonBody tr) = tr @ [HttpPost (KonaServerUrl (Cfg E)) jsonBody]"
  using assms
  by (simp add: RequestProofFromServer_def Let_def split: sum.splits)

lemma unat_minus_one_pos:
  fixes s :: u64
  assumes "0 < s"
  shows "unat (s - 1) = unat s - 1"
  using assms by (simp add: unat_minus_one word_neq_0_conv)

text \<open>
  Claim C2. For every SPAN entry with stored range \<open>[s, e]\<close> that a worker submits, the JSON
  body posted to the prover is \<^verbatim>\<open>{"start": s, "end": e}\<close>, for every \<open>s\<close> including 0.

  As stated the claim fails: \<^verbatim>\<open>RequestKonaProof\<close> (which the worker calls with its copy of the
  entry) passes \<^verbatim>\<open>prevConfirmedBlock = p.StartBlock - 1\<close> as the start. For the entry
  \<open>[1001, 1100]\<close> the body is \<^verbatim>\<open>{"start": 1000, "end": 1100}\<close>; for an entry that starts at
  block 0 the subtraction wraps and the start sent is \<open>2^64 - 1\<close>.
\<close>

theorem span_request_start_differs_from_stored_start:
  "StartBlock span_1001_1100 = 1001 \<and> EndBlock span_1001_1100 = 1100 \<and>
   RequestKonaProof idle_env span_1001_1100 [] =
     (None, [HttpPost ''http://prover'' (JObj [(''start'', JNum 1000), (''end'', JNum 1100)]),
             SetProverRequestID 3 ''kona-1'']) \<and>
   HttpPost ''http://prover'' (JObj [(''start'', JNum 1001), (''end'', JNum 1100)])
     \<notin> set (snd (RequestKonaProof idle_env span_1001_1100 [])) \<and>
   StartBlock span_0_99 = 0 \<and> EndBlock span_0_99 = 99 \<and>
   RequestKonaProof idle_env span_0_99 [] =
     (None, [HttpPost ''http://prover''
               (JObj [(''start'', JNum 18446744073709551615), (''end'', JNum 99)]),
             SetProverRequestID 6 ''kona-1''])"
  by (simp add: RequestKonaProof_def RequestSpanProof_def RequestProofFromServer_def
        json_Marshal_SpanProofRequest_def db_call_def span_1001_1100_def span_0_99_def
        unsigned_minus_1_eq_mask mask_eq_exp_minus_1)

text \<open>
  Claim C2 as amended. For every SPAN entry \<open>[s, e]\<close> with \<open>s \<ge> 1\<close> that is submitted, the
  body posted is \<^verbatim>\<open>{"start": s - 1, "end": e}\<close>: the start sent is the block before the
  stored range, the end is the stored end. The request is posted whenever the request
  object can be built; it is the only POST of the call, followed at most by
  \<^verbatim>\<open>SetProverRequestID\<close> for the same entry.
\<close>

theorem span_request_posts_previous_block:
  assumes span: "Type p = TypeSPAN"
    and req: "http_NewRequest E ''POST'' (KonaServerUrl (Cfg E)) = None"
    and pos: "0 < StartBlock p"
  shows "\<exists>rest.
           snd (RequestKonaProof E p tr) =
             tr @ HttpPost (KonaServerUrl (Cfg E))
                    (JObj [(''start'', JNum (unat (StartBlock p) - 1)),
                           (''end'', JNum (unat (EndBlock p)))]) # rest \<and>
           (rest = [] \<or> (\<exists>proofId. rest = [SetProverRequestID (ID p) proofId]))"
proof -
  let ?body = "JObj [(''start'', JNum (unat (StartBlock p - 1))), (''end'', JNum (unat (EndBlock p)))]"
  obtain r t where rp: "RequestProofFromServer E ?body tr = (r, t)"
    by (cases "RequestProofFromServer E ?body tr")
  from RequestProofFromServer_trace [OF req, of ?body tr] rp
  have t: "t = tr @ [HttpPost (KonaServerUrl (Cfg E)) ?body]" by simp
  have "snd (RequestKonaProof E p tr) = t \<or>
        (\<exists>proofId. snd (RequestKonaProof E p tr) = t @ [SetProverRequestID (ID p) proofId])"
    using span rp
    by (cases r)
       (auto simp: RequestKonaProof_def RequestSpanProof_def json_Marshal_SpanProofRequest_def
                   db_call_def Let_def split: option.splits)
  then show ?thesis
    unfolding t unat_minus_one_pos [OF pos] by auto
qed

text \<open>The witness: the entry \<open>[1001, 1100]\<close>, for which the start sent is 1000.\<close>

theorem span_request_posts_previous_block_witness:
  "Type span_1001_1100 = TypeSPAN \<and>
   http_NewRequest idle_env ''POST'' (KonaServerUrl (Cfg idle_env)) = None \<and>
   0 < StartBlock span_1001_1100 \<and>
   (\<exists>rest.
      snd (RequestKonaProof idle_env span_1001_1100 []) =
        [] @ HttpPost (KonaServerUrl (Cfg idle_env))
               (JObj [(''start'', JNum (unat (StartBlock span_1001_1100) - 1)),
                      (''end'', JNum (unat (EndBlock span_1001_1100)))]) # rest \<and>
      (rest = [] \<or> (\<exists>proofId. rest = [SetProverRequestID (ID span_1001_1100) proofId]))) \<and>
   unat (StartBlock span_1001_1100) - 1 = 1000 \<and> unat (EndBlock span_1001_1100) = 1100"
proof -
  have h1: "Type span_1001_1100 = TypeSPAN" by (simp add: span_1001_1100_def)
  have h2: "http_NewRequest idle_env ''POST'' (KonaServerUrl (Cfg idle_env)) = None" by simp
  have h3: "0 < StartBlock span_1001_1100" by (simp add: span_1001_1100_def)
  note t = span_request_posts_previous_block [OF h1 h2 h3, of "[]"]
  have v: "unat (StartBlock span_1001_1100) - 1 = 1000 \<and> unat (EndBlock span_1001_1100) = 1100"
    by (simp add: span_1001_1100_def)
  from h1 h2 h3 t v show ?thesis by blast
qed

text \<open>
  Claim C3. For every AGG entry submitted to the prover, the JSON body contains both the
  array of subproofs and a \<^verbatim>\<open>head\<close> field with the L1 checkpoint recorded for the entry.

  As stated the claim fails: \<^verbatim>\<open>AggProofRequest\<close> has the single field \<^verbatim>\<open>Subproofs\<close>, and
  \<^verbatim>\<open>RequestAggProof\<close> has no parameter for a checkpoint. In the run the checkpoint
  (block 77) is recorded with \<^verbatim>\<open>AddL1BlockInfo\<close>, and the body posted afterwards has the one
  member \<^verbatim>\<open>subproofs\<close>.
\<close>

theorem agg_request_body_has_no_head:
  "rq_trace (RequestQueuedProofs (unrequested_env [agg_1001_1300])
      [Main, Goroutine 0, Goroutine 0] []) =
     [AddL1BlockInfo 1001 1300 77 ''0xabc'',
      UpdateProofStatus 7 ''REQ'',
      HttpPost ''http://prover'' (JObj [(''subproofs'', JArr [JBase64 [1], JBase64 [2]])]),
      SetProverRequestID 7 ''kona-1''] \<and>
   json_keys (JObj [(''subproofs'', JArr [JBase64 [1], JBase64 [2]])]) = [''subproofs''] \<and>
   ''head'' \<notin> set (json_keys (JObj [(''subproofs'', JArr [JBase64 [1], JBase64 [2]])]))"
  by (simp add: RequestQueuedProofs_def main_step_def worker_step_def spawn_def set_pc_def
        closure_proof_def zero_ProofRequest_def db_call_def RequestKonaProof_def
        RequestAggProof_def RequestProofFromServer_def json_Marshal_AggProofRequest_def
        agg_1001_1300_def)

text \<open>
  Claim C3 as amended. For every AGG entry \<open>[s, e]\<close> submitted to the prover, the JSON body
  is the object with the single member \<^verbatim>\<open>subproofs\<close>: the subproofs the store returns for
  \<open>(s - 1, e)\<close>, each as a base64 string. It has no \<^verbatim>\<open>head\<close> member; the checkpoint recorded
  for the entry is not part of the request.
\<close>

theorem agg_request_body_is_subproofs_only:
  assumes agg: "Type p = TypeAGG"
    and sub: "GetSubproofs E tr (StartBlock p - 1) (EndBlock p) = Inr sp"
    and req: "http_NewRequest E ''POST'' (KonaServerUrl (Cfg E)) = None"
  shows "\<exists>rest.
           snd (RequestKonaProof E p tr) =
             tr @ HttpPost (KonaServerUrl (Cfg E)) (JObj [(''subproofs'', marshal_subproofs sp)]) # rest \<and>
           (rest = [] \<or> (\<exists>proofId. rest = [SetProverRequestID (ID p) proofId]))"
proof -
  let ?body = "JObj [(''subproofs'', marshal_subproofs sp)]"
  obtain r t where rp: "RequestProofFromServer E ?body tr = (r, t)"
    by (cases "RequestProofFromServer E ?body tr")
  from RequestProofFromServer_trace [OF req, of ?body tr] rp
  have t: "t = tr @ [HttpPost (KonaServerUrl (Cfg E)) ?body]" by simp
  have "snd (RequestKonaProof E p tr) = t \<or>
        (\<exists>proofId. snd (RequestKonaProof E p tr) = t @ [SetProverRequestID (ID p) proofId])"
    using agg sub rp
    by (cases r)
       (auto simp: RequestKonaProof_def RequestAggProof_def json_Marshal_AggProofRequest_def
                   db_call_def Let_def split: option.splits)
  then show ?thesis
    unfolding t by auto
qed

text \<open>The witness: the AGG \<open>[1001, 1300]\<close> with two subproofs of one byte each.\<close>

theorem agg_request_body_is_subproofs_only_witness:
  "Type agg_1001_1300 = TypeAGG \<and>
   GetSubproofs idle_env [] (StartBlock agg_1001_1300 - 1) (EndBlock agg_1001_1300) =
     Inr (Some [Some [1], Some [2]]) \<and>
   http_NewRequest idle_env ''POST'' (KonaServerUrl (Cfg idle_env)) = None \<and>
   (\<exists>rest.
      snd (RequestKonaProof idle_env agg_1001_1300 []) =
        [] @ HttpPost (KonaServerUrl (Cfg idle_env))
               (JObj [(''subproofs'', marshal_subproofs (Some [Some [1], Some [2]]))]) # rest \<and>
      (rest = [] \<or> (\<exists>proofId. rest = [SetProverRequestID (ID agg_1001_1300) proofId]))) \<and>
   marshal_subproofs (Some [Some [1], Some [2]]) = JArr [JBase64 [1], JBase64 [2]]"
proof -
  have h1: "Type agg_1001_1300 = TypeAGG" by (simp add: agg_1001_1300_def)
  have h2: "GetSubproofs idle_env [] (StartBlock agg_1001_1300 - 1) (EndBlock agg_1001_1300) =
     Inr (Some [Some [1], Some [2]])" by simp
  have h3: "http_NewRequest idle_env ''POST'' (KonaServerUrl (Cfg idle_env)) = None" by simp
  note t = agg_request_body_is_subproofs_only [OF h1 h2 h3]
  have v: "marshal_subproofs (Some [Some [1], Some [2]]) = JArr [JBase64 [1], JBase64 [2]]"
    by simp
  from h1 h2 h3 t v show ?thesis by blast
qed

subsection \<open>RequestQueuedProofs\<close>

text \<open>
  Claim C8. Every worker started by \<^verbatim>\<open>RequestQueuedProofs\<close> performs all its effects on
  the entry it was started for: the transition to REQ, the submission, the call of
  \<^verbatim>\<open>SetProverRequestID\<close> and the transition to FAILED all use that entry's id.

  The goroutine reads \<^verbatim>\<open>proof.ID\<close>, the loop variable, for the two status updates, and
  \<^verbatim>\<open>p\<close>, its own copy, for the rest. With one loop variable for the whole loop (the Go
  language before version 1.22) the two differ as soon as the loop has moved on. In the
  run, the entries 3 and 4 are unrequested and the loop finishes before the goroutines
  start, as it does when nothing blocks it. The goroutine for entry 3 then marks entry 4
  as REQ, submits the range of entry 3 and stores the prover's id under entry 3; entry 3
  is never marked REQ, and entry 4 is marked twice.
\<close>

theorem worker_updates_status_of_another_entry:
  "rq_trace (RequestQueuedProofs (unrequested_env [span_1001_1100, span_1101_1200])
      [Main, Main, Main, Goroutine 0, Goroutine 0, Goroutine 1, Goroutine 1] []) =
     [UpdateProofStatus 4 ''REQ'',
      HttpPost ''http://prover'' (JObj [(''start'', JNum 1000), (''end'', JNum 1100)]),
      SetProverRequestID 3 ''kona-1'',
      UpdateProofStatus 4 ''REQ'',
      HttpPost ''http://prover'' (JObj [(''start'', JNum 1100), (''end'', JNum 1200)]),
      SetProverRequestID 4 ''kona-1'']"
  by code_simp

text \<open>
  Claim C9. Before the submission of an AGG entry is started, its L1 checkpoint has been
  recorded successfully with \<^verbatim>\<open>AddL1BlockInfo\<close>; no AGG submission proceeds for an entry
  whose checkpoint could not be recorded.

  The code calls \<^verbatim>\<open>AddL1BlockInfo\<close> before the \<^verbatim>\<open>go\<close> statement but does not look at what it
  returns, unlike every other store call of the file. In the run the store refuses
  \<^verbatim>\<open>AddL1BlockInfo\<close>; the goroutine is started all the same, marks the entry REQ and
  submits it.
\<close>

theorem agg_submitted_although_checkpoint_not_recorded:
  "db_reply (no_checkpoint_env [agg_1001_1300]) [] (AddL1BlockInfo 1001 1300 77 ''0xabc'') =
     Some (Error ''proof request not found'') \<and>
   rq_trace (RequestQueuedProofs (no_checkpoint_env [agg_1001_1300])
      [Main, Goroutine 0, Goroutine 0] []) =
     [AddL1BlockInfo 1001 1300 77 ''0xabc'',
      UpdateProofStatus 7 ''REQ'',
      HttpPost ''http://prover'' (JObj [(''subproofs'', JArr [JBase64 [1], JBase64 [2]])]),
      SetProverRequestID 7 ''kona-1'']"
  by (simp add: RequestQueuedProofs_def main_step_def worker_step_def spawn_def set_pc_def
        closure_proof_def zero_ProofRequest_def db_call_def RequestKonaProof_def
        RequestAggProof_def RequestProofFromServer_def json_Marshal_AggProofRequest_def
        agg_1001_1300_def)

subsection \<open>DeriveNewSpanBatches: the chunking loop\<close>

text \<open>
  Below \<open>2^53\<close> the conversion to \<^verbatim>\<open>float64\<close> is exact; from \<open>2^53\<close> on its result is at
  least \<open>2^53\<close>. So when \<^verbatim>\<open>end\<close> is below \<open>2^53\<close> and \<^verbatim>\<open>tmpStart + Max - 1\<close> does not wrap, the
  bound computed in floating point is the minimum of the two integers.
\<close>

lemma float64_exact:
  assumes "unat x < 2 ^ 53"
  shows "float64 x = unat x"
proof -
  have "floorlog 2 (unat x) \<le> 53"
    using assms by (intro floorlog_leI) simp_all
  then show ?thesis by (simp add: float64_def)
qed

lemma round_half_even_lower: "(n div 2 ^ sh) * 2 ^ sh \<le> round_half_even sh n"
  by (simp add: round_half_even_def)

lemma float64_large:
  assumes "2 ^ 53 \<le> unat x"
  shows "2 ^ 53 \<le> float64 x"
proof (cases "floorlog 2 (unat x) \<le> 53")
  case True
  then show ?thesis using assms by (simp add: float64_def)
next
  case False
  define n where "n = unat x"
  define sh where "sh = floorlog 2 n - 53"
  from False have fl: "floorlog 2 n = sh + 53" and sh: "0 < sh"
    by (simp_all add: n_def sh_def)
  have npos: "0 < n" using assms by (simp add: n_def)
  from floorlog_bounds [OF npos, of 2] have "(2::nat) ^ (floorlog 2 n - 1) \<le> n" by simp
  then have "(2::nat) ^ (52 + sh) \<le> n" by (simp add: fl)
  then have "(2::nat) ^ 52 * 2 ^ sh \<le> n" by (simp only: power_add)
  then have q: "(2::nat) ^ 52 \<le> n div 2 ^ sh"
    by (simp add: less_eq_div_iff_mult_less_eq)
  have "(2::nat) ^ 53 = 2 ^ 52 * 2 ^ 1" by simp
  also have "\<dots> \<le> 2 ^ 52 * 2 ^ sh"
    using sh by (intro mult_le_mono2 power_increasing) simp_all
  also have "\<dots> \<le> (n div 2 ^ sh) * 2 ^ sh"
    using q by (rule mult_le_mono1)
  also have "\<dots> \<le> round_half_even sh n" by (rule round_half_even_lower)
  finally show ?thesis
    using False by (simp add: float64_def n_def sh_def)
qed

lemma chunk_end_value:
  fixes tmpStart end_block M :: u64
  assumes e53: "unat end_block < 2 ^ 53"
    and se: "unat tmpStart \<le> unat end_block"
    and M1: "1 \<le> unat M"
    and nowrap: "unat end_block + unat M \<le> 2 ^ 64"
  shows "unat (tmpStart + M - 1) = unat tmpStart + unat M - 1"
    and "unat (uint64_of_float64 E (math_Min (float64 (tmpStart + M - 1)) (float64 end_block))) =
           min (unat tmpStart + unat M - 1) (unat end_block)"
proof -
  have a: "unat (tmpStart + M - 1) = unat tmpStart + unat M - 1"
  proof -
    have e1: "tmpStart + M - 1 = tmpStart + (M - 1)" by simp
    have e2: "unat (M - 1) = unat M - 1"
      using M1 by (metis One_nat_def Suc_le_lessD unat_gt_0 unat_minus_one)
    have "unat tmpStart + unat (M - 1) < 2 ^ LENGTH(64)"
      using se nowrap M1 e2 by simp
    then have e4: "unat (tmpStart + (M - 1)) = unat tmpStart + unat (M - 1)"
      by (rule unat_add_lem [THEN iffD1])
    show ?thesis
      unfolding e1 e4 e2 using M1 by arith
  qed
  show "unat (tmpStart + M - 1) = unat tmpStart + unat M - 1" by (rule a)
  have fe: "float64 end_block = unat end_block" by (rule float64_exact [OF e53])
  have m: "math_Min (float64 (tmpStart + M - 1)) (float64 end_block) =
             min (unat tmpStart + unat M - 1) (unat end_block)"
  proof (cases "unat (tmpStart + M - 1) < 2 ^ 53")
    case True
    then show ?thesis by (simp add: math_Min_def fe float64_exact a)
  next
    case False
    then have "2 ^ 53 \<le> float64 (tmpStart + M - 1)" by (intro float64_large) simp
    with False e53 show ?thesis by (simp add: math_Min_def fe a)
  qed
  have "min (unat tmpStart + unat M - 1) (unat end_block) < 2 ^ 64"
    using e53 by (simp add: min_def)
  then show "unat (uint64_of_float64 E (math_Min (float64 (tmpStart + M - 1)) (float64 end_block))) =
           min (unat tmpStart + unat M - 1) (unat end_block)"
    unfolding m uint64_of_float64_def
    by (simp add: unat_of_nat)
qed

lemma covers_Cons:
  assumes "covers M s' e rs" and "unat a = s" and "s \<le> unat b" and "unat b - s + 1 \<le> M"
    and "s' = unat b + 1"
  shows "covers M s e ((a, b) # rs)"
  using assms by (cases rs) auto

lemma chunk_loop_covers:
  assumes accept: "\<forall>t c. db_reply E t c = None"
    and e53: "unat end_block < 2 ^ 53"
    and M1: "1 \<le> unat (MaxBlockRangePerSpanProof (Cfg E))"
    and nowrap: "unat end_block + unat (MaxBlockRangePerSpanProof (Cfg E)) \<le> 2 ^ 64"
  shows "unat tmpStart \<le> unat end_block \<Longrightarrow> unat end_block - unat tmpStart < fuel \<Longrightarrow>
         \<exists>rs. chunk_loop fuel E end_block tmpStart tr =
                 Some (None, tr @ map (\<lambda>(a, b). NewEntry ''SPAN'' a b) rs) \<and>
              covers (unat (MaxBlockRangePerSpanProof (Cfg E))) (unat tmpStart) (unat end_block) rs"
proof (induction fuel arbitrary: tmpStart tr)
  case 0
  then show ?case by simp
next
  case (Suc fuel)
  let ?M = "MaxBlockRangePerSpanProof (Cfg E)"
  let ?tmpEnd = "uint64_of_float64 E (math_Min (float64 (tmpStart + ?M - 1)) (float64 end_block))"
  have te: "unat ?tmpEnd = min (unat tmpStart + unat ?M - 1) (unat end_block)"
    by (rule chunk_end_value(2) [OF e53 Suc.prems(1) M1 nowrap])
  have lo: "unat tmpStart \<le> unat ?tmpEnd" and hi: "unat ?tmpEnd \<le> unat end_block"
    and sz: "unat ?tmpEnd - unat tmpStart + 1 \<le> unat ?M"
    using M1 Suc.prems(1) unfolding te by (auto simp: min_def)
  show ?case
  proof (cases "?tmpEnd = end_block")
    case True
    have "chunk_loop (Suc fuel) E end_block tmpStart tr =
            Some (None, tr @ map (\<lambda>(a, b). NewEntry ''SPAN'' a b) [(tmpStart, end_block)])"
      using True accept by (simp add: db_call_def Let_def)
    moreover have "covers (unat ?M) (unat tmpStart) (unat end_block) [(tmpStart, end_block)]"
      using sz Suc.prems(1) True by simp
    ultimately show ?thesis by blast
  next
    case False
    then have "unat ?tmpEnd \<noteq> unat end_block" by (simp add: word_unat_eq_iff)
    with hi have lt: "unat ?tmpEnd < unat end_block" by simp
    have "unat end_block < 2 ^ 64" using e53 by simp
    with lt have "unat ?tmpEnd + unat (1 :: u64) < 2 ^ LENGTH(64)" by simp
    then have "unat (?tmpEnd + 1) = unat ?tmpEnd + unat (1 :: u64)"
      by (rule unat_add_lem [THEN iffD1])
    then have nx: "unat (?tmpEnd + 1) = unat ?tmpEnd + 1" by simp
    have p1: "unat (?tmpEnd + 1) \<le> unat end_block" using lt nx by simp
    have p2: "unat end_block - unat (?tmpEnd + 1) < fuel"
      using Suc.prems(2) lo lt nx by simp
    from Suc.IH [OF p1 p2, of "tr @ [NewEntry ''SPAN'' tmpStart ?tmpEnd]"]
    obtain rs where
      run: "chunk_loop fuel E end_block (?tmpEnd + 1) (tr @ [NewEntry ''SPAN'' tmpStart ?tmpEnd]) =
              Some (None, (tr @ [NewEntry ''SPAN'' tmpStart ?tmpEnd]) @ map (\<lambda>(a, b). NewEntry ''SPAN'' a b) rs)"
      and cov: "covers (unat ?M) (unat (?tmpEnd + 1)) (unat end_block) rs"
      by blast
    have "chunk_loop (Suc fuel) E end_block tmpStart tr =
            Some (None, tr @ map (\<lambda>(a, b). NewEntry ''SPAN'' a b) ((tmpStart, ?tmpEnd) # rs))"
      using False accept run by (simp add: db_call_def Let_def)
    moreover have "covers (unat ?M) (unat tmpStart) (unat end_block) ((tmpStart, ?tmpEnd) # rs)"
      using cov lo sz nx by (intro covers_Cons [where s' = "unat (?tmpEnd + 1)"]) simp_all
    ultimately show ?thesis by blast
  qed
qed

lemma chunk_loop_numeral:
  "chunk_loop (numeral k) E end_block tmpStart tr =
     (let maxEnd = tmpStart + MaxBlockRangePerSpanProof (Cfg E) - 1;
          tmpEnd = uint64_of_float64 E (math_Min (float64 maxEnd) (float64 end_block))
      in case db_call E (NewEntry ''SPAN'' tmpStart tmpEnd) tr of
           (Some err, tr') \<Rightarrow> Some (Some err, tr')
         | (None, tr') \<Rightarrow>
             if tmpEnd = end_block then Some (None, tr')
             else chunk_loop (pred_numeral k) E end_block (tmpEnd + 1) tr')"
  by (simp add: numeral_eq_Suc)

lemma derive_loop_numeral:
  "derive_loop m (numeral k) E nextBlock tr =
     (case GenerateSpanBatchRange E tr nextBlock (MaxSpanBatchDeviation (Cfg E)) of
        (start, end_block, err) \<Rightarrow>
          if err = Some NoSpanBatchFoundError then Some (None, tr)
          else if err = Some MaxDeviationExceededError \<or> err = None then
            (case chunk_loop m E end_block nextBlock tr of
               None \<Rightarrow> None
             | Some (Some e, tr') \<Rightarrow> Some (Some e, tr')
             | Some (None, tr') \<Rightarrow> derive_loop m (pred_numeral k) E (end_block + 1) tr')
          else Some (err, tr))"
  by (simp add: numeral_eq_Suc)

text \<open>
  Claim C10. For every \<open>next_block \<le> end\<close> and \<^verbatim>\<open>MaxBlockRangePerSpanProof\<close> \<open>\<ge> 1\<close>, the
  chunking loop of \<^verbatim>\<open>DeriveNewSpanBatches\<close> creates SPAN entries whose ranges are consecutive,
  each of size at most \<^verbatim>\<open>MaxBlockRangePerSpanProof\<close>, and exactly cover \<open>[next_block, end]\<close>.

  As stated, for all 64-bit block numbers, the claim fails, because the bound of a chunk
  goes through \<^verbatim>\<open>float64\<close>. With a limit of 4 blocks, \<open>next_block = 2^53\<close> and
  \<open>end = 2^53 + 8\<close>, the first bound \<open>2^53 + 3\<close> is rounded to \<open>2^53 + 4\<close>: the first entry
  created has five blocks.
\<close>

theorem chunk_of_five_blocks_for_limit_four:
  "MaxBlockRangePerSpanProof (Cfg four_block_env) = 4 \<and>
   (9007199254740992 :: u64) \<le> 9007199254741000 \<and>
   chunk_loop 2 four_block_env 9007199254741000 9007199254740992 [] =
     Some (None, [NewEntry ''SPAN'' 9007199254740992 9007199254740996,
                  NewEntry ''SPAN'' 9007199254740997 9007199254741000]) \<and>
   \<not> covers 4 9007199254740992 9007199254741000
        [(9007199254740992, 9007199254740996), (9007199254740997, 9007199254741000)]"
proof -
  have f1: "float64 9007199254740995 = 9007199254740996"
    by (simp add: float64_def round_half_even_def compute_floorlog)
  have f2: "float64 9007199254741000 = 9007199254741000"
    by (simp add: float64_def round_half_even_def compute_floorlog)
  have c: "chunk_loop 2 four_block_env 9007199254741000 9007199254740992 [] =
     Some (None, [NewEntry ''SPAN'' 9007199254740992 9007199254740996,
                  NewEntry ''SPAN'' 9007199254740997 9007199254741000])"
    by (simp add: chunk_loop_numeral f1 f2 math_Min_def uint64_of_float64_def db_call_def Let_def)
  have n: "\<not> covers 4 9007199254740992 9007199254741000
        [(9007199254740992, 9007199254740996), (9007199254740997, 9007199254741000)]"
    by simp
  from c n show ?thesis by simp
qed

text \<open>
  Claim C10 as amended. For every \<open>next_block \<le> end < 2^53\<close> and
  \<^verbatim>\<open>MaxBlockRangePerSpanProof\<close> \<open>\<ge> 1\<close> with \<open>end + MaxBlockRangePerSpanProof \<le> 2^64\<close>, and a
  store that accepts the insertions, the chunking loop ends (fuel for \<open>end - next_block + 1\<close>
  iterations is enough) and the SPAN entries it creates are consecutive, each of size at
  most \<^verbatim>\<open>MaxBlockRangePerSpanProof\<close>, and exactly cover \<open>[next_block, end]\<close>.
\<close>

theorem chunking_covers_the_span_batch:
  assumes accept: "\<forall>t c. db_reply E t c = None"
    and le: "nextBlock \<le> end_block"
    and e53: "end_block < 2 ^ 53"
    and M1: "1 \<le> MaxBlockRangePerSpanProof (Cfg E)"
    and nowrap: "unat end_block + unat (MaxBlockRangePerSpanProof (Cfg E)) \<le> 2 ^ 64"
    and fuel: "unat end_block - unat nextBlock < fuel"
  shows "\<exists>rs. chunk_loop fuel E end_block nextBlock tr =
                 Some (None, tr @ map (\<lambda>(a, b). NewEntry ''SPAN'' a b) rs) \<and>
              covers (unat (MaxBlockRangePerSpanProof (Cfg E))) (unat nextBlock) (unat end_block) rs"
proof -
  have a: "unat nextBlock \<le> unat end_block"
    using le by (simp add: word_le_nat_alt)
  have b: "unat end_block < 2 ^ 53"
    using e53 by (simp add: word_less_nat_alt)
  have c: "1 \<le> unat (MaxBlockRangePerSpanProof (Cfg E))"
    using M1 by (simp add: word_le_nat_alt)
  show ?thesis
    by (rule chunk_loop_covers [OF accept b c nowrap a fuel])
qed

text \<open>
  The witness is scenario 1 of the specification: the store is empty, the contract's
  latest block is 1000, the limit is 100 and the decoder finds the span batch
  \<open>[1001, 1350]\<close>. The loop, and \<^verbatim>\<open>DeriveNewSpanBatches\<close> as a whole, create the four entries
  \<open>[1001, 1100]\<close>, \<open>[1101, 1200]\<close>, \<open>[1201, 1300]\<close>, \<open>[1301, 1350]\<close>.
\<close>

theorem chunking_covers_the_span_batch_witness:
  "(\<forall>t c. db_reply scenario_env t c = None) \<and>
   (1001 :: u64) \<le> 1350 \<and> (1350 :: u64) < 2 ^ 53 \<and>
   1 \<le> MaxBlockRangePerSpanProof (Cfg scenario_env) \<and>
   unat (1350 :: u64) + unat (MaxBlockRangePerSpanProof (Cfg scenario_env)) \<le> 2 ^ 64 \<and>
   unat (1350 :: u64) - unat (1001 :: u64) < 350 \<and>
   (\<exists>rs. chunk_loop 350 scenario_env 1350 1001 [] =
            Some (None, [] @ map (\<lambda>(a, b). NewEntry ''SPAN'' a b) rs) \<and>
         covers (unat (MaxBlockRangePerSpanProof (Cfg scenario_env))) (unat (1001 :: u64)) (unat (1350 :: u64)) rs) \<and>
   chunk_loop 350 scenario_env 1350 1001 [] =
     Some (None, [NewEntry ''SPAN'' 1001 1100, NewEntry ''SPAN'' 1101 1200,
                  NewEntry ''SPAN'' 1201 1300, NewEntry ''SPAN'' 1301 1350]) \<and>
   covers 100 1001 1350 [(1001, 1100), (1101, 1200), (1201, 1300), (1301, 1350)] \<and>
   LatestBlockNumber scenario_env [] = Inr 1000 \<and>
   DeriveNewSpanBatches 350 scenario_env [] =
     Some (None, [NewEntry ''SPAN'' 1001 1100, NewEntry ''SPAN'' 1101 1200,
                  NewEntry ''SPAN'' 1201 1300, NewEntry ''SPAN'' 1301 1350])"
proof -
  have h1: "\<forall>t c. db_reply scenario_env t c = None" by simp
  have h2: "(1001 :: u64) \<le> 1350" by simp
  have h3: "(1350 :: u64) < 2 ^ 53" by simp
  have h4: "1 \<le> MaxBlockRangePerSpanProof (Cfg scenario_env)" by simp
  have h5: "unat (1350 :: u64) + unat (MaxBlockRangePerSpanProof (Cfg scenario_env)) \<le> 2 ^ 64" by simp
  have h6: "unat (1350 :: u64) - unat (1001 :: u64) < 350" by simp
  note t = chunking_covers_the_span_batch [OF h1 h2 h3 h4 h5 h6, of "[]"]
  have c: "chunk_loop 350 scenario_env 1350 1001 [] =
     Some (None, [NewEntry ''SPAN'' 1001 1100, NewEntry ''SPAN'' 1101 1200,
                  NewEntry ''SPAN'' 1201 1300, NewEntry ''SPAN'' 1301 1350])"
    by (simp add: chunk_loop_numeral float64_exact math_Min_def uint64_of_float64_def db_call_def Let_def)
  have v: "covers 100 1001 1350 [(1001, 1100), (1101, 1200), (1201, 1300), (1301, 1350)]"
    by simp
  have l: "LatestBlockNumber scenario_env [] = Inr 1000" by simp
  have d: "DeriveNewSpanBatches 350 scenario_env [] =
     Some (None, [NewEntry ''SPAN'' 1001 1100, NewEntry ''SPAN'' 1101 1200,
                  NewEntry ''SPAN'' 1201 1300, NewEntry ''SPAN'' 1301 1350])"
    by (simp add: DeriveNewSpanBatches_def derive_loop_numeral c)
  from h1 h2 h3 h4 h5 h6 t c v l d show ?thesis by blast
qed

subsection \<open>Further properties of the same functions\<close>

text \<open>
  The AGG retry is followed by the split for every AGG entry, not only in the run of
  the entry \<open>[1001, 1300]\<close>: whenever the store accepts the calls and an AGG entry is past its
  deadline, its iteration of \<^verbatim>\<open>ProcessPendingProofs\<close> issues \<^verbatim>\<open>UpdateProofStatus(id, "FAILED")\<close>,
  \<^verbatim>\<open>NewEntry("AGG", s, e)\<close>, \<^verbatim>\<open>NewEntry("SPAN", s, m)\<close> and \<^verbatim>\<open>NewEntry("SPAN", m+1, e)\<close>, in
  this order, preceded only by \<^verbatim>\<open>AddProof\<close> if the prover reported the proof fulfilled.
\<close>

theorem late_agg_is_retried_and_split:
  assumes accept: "\<forall>t c. db_reply E t c = None"
    and agg: "Type req = TypeAGG"
    and late: "\<forall>t. timeout E t req"
    and m: "m = StartBlock req + (EndBlock req - StartBlock req) div 2"
  shows "\<exists>t2. (t2 = tr \<or> (\<exists>pb. t2 = tr @ [AddProof (ID req) pb])) \<and>
           process_req E req tr =
             (None, t2 @ [UpdateProofStatus (ID req) ''FAILED'',
                          NewEntry ''AGG'' (StartBlock req) (EndBlock req),
                          NewEntry ''SPAN'' (StartBlock req) m,
                          NewEntry ''SPAN'' (m + 1) (EndBlock req)])"
  using accept agg late unfolding m
  by (cases "GetProofStatus E tr (ProverRequestID req)")
     (auto simp: process_req_def then_ok_def db_call_def Let_def)

text \<open>A run that meets the hypotheses of the last theorem.\<close>

theorem late_agg_is_retried_and_split_witness:
  "(\<forall>t c. db_reply (pending_env [agg_1001_1300]) t c = None) \<and>
   Type agg_1001_1300 = TypeAGG \<and>
   (\<forall>t. timeout (pending_env [agg_1001_1300]) t agg_1001_1300) \<and>
   (1150 :: u64) = StartBlock agg_1001_1300 + (EndBlock agg_1001_1300 - StartBlock agg_1001_1300) div 2 \<and>
   (\<exists>t2. (t2 = [] \<or> (\<exists>pb. t2 = [] @ [AddProof (ID agg_1001_1300) pb])) \<and>
      process_req (pending_env [agg_1001_1300]) agg_1001_1300 [] =
        (None, t2 @ [UpdateProofStatus (ID agg_1001_1300) ''FAILED'',
                     NewEntry ''AGG'' (StartBlock agg_1001_1300) (EndBlock agg_1001_1300),
                     NewEntry ''SPAN'' (StartBlock agg_1001_1300) 1150,
                     NewEntry ''SPAN'' (1150 + 1) (EndBlock agg_1001_1300)]))"
proof -
  have h1: "\<forall>t c. db_reply (pending_env [agg_1001_1300]) t c = None" by simp
  have h2: "Type agg_1001_1300 = TypeAGG" by (simp add: agg_1001_1300_def)
  have h3: "\<forall>t. timeout (pending_env [agg_1001_1300]) t agg_1001_1300"
    by (simp add: timeout_def word_sless_alt agg_1001_1300_def)
  have h4: "(1150 :: u64) = StartBlock agg_1001_1300 + (EndBlock agg_1001_1300 - StartBlock agg_1001_1300) div 2"
    by (simp add: agg_1001_1300_def)
  note t = late_agg_is_retried_and_split [OF h1 h2 h3 h4, of "[]"]
  from h1 h2 h3 h4 t show ?thesis by blast
qed

text \<open>
  Whenever the prover reports \<^verbatim>\<open>PROOF_FULFILLED\<close> for an entry that is past its
  deadline and the store accepts the calls, the iteration stores the proof with
  \<^verbatim>\<open>AddProof\<close>, then calls \<^verbatim>\<open>UpdateProofStatus(id, "FAILED")\<close> for the same entry and inserts
  recovery entries.
\<close>

theorem fulfilled_and_late_is_completed_then_failed:
  assumes accept: "\<forall>t c. db_reply E t c = None"
    and late: "\<forall>t. timeout E t req"
    and full: "GetProofStatus E tr (ProverRequestID req) = (''PROOF_FULFILLED'', pb, err)"
  shows "\<exists>rest. process_req E req tr =
           (None, tr @ AddProof (ID req) pb # UpdateProofStatus (ID req) ''FAILED'' # rest) \<and>
           NewEntry ''SPAN'' (StartBlock req + (EndBlock req - StartBlock req) div 2 + 1) (EndBlock req)
             \<in> set rest"
  using accept late full
  by (auto simp: process_req_def then_ok_def db_call_def Let_def)

text \<open>A run that meets the hypotheses of the last theorem.\<close>

theorem fulfilled_and_late_is_completed_then_failed_witness:
  "(\<forall>t c. db_reply (fulfilled_env [span_42]) t c = None) \<and>
   (\<forall>t. timeout (fulfilled_env [span_42]) t span_42) \<and>
   GetProofStatus (fulfilled_env [span_42]) [] (ProverRequestID span_42) =
     (''PROOF_FULFILLED'', Some [1, 2, 3], None) \<and>
   (\<exists>rest. process_req (fulfilled_env [span_42]) span_42 [] =
      (None, [] @ AddProof (ID span_42) (Some [1, 2, 3]) # UpdateProofStatus (ID span_42) ''FAILED'' # rest) \<and>
      NewEntry ''SPAN'' (StartBlock span_42 + (EndBlock span_42 - StartBlock span_42) div 2 + 1) (EndBlock span_42)
        \<in> set rest)"
proof -
  have h1: "\<forall>t c. db_reply (fulfilled_env [span_42]) t c = None" by simp
  have h2: "\<forall>t. timeout (fulfilled_env [span_42]) t span_42"
    by (simp add: timeout_def word_sless_alt span_42_def)
  have h3: "GetProofStatus (fulfilled_env [span_42]) [] (ProverRequestID span_42) =
     (''PROOF_FULFILLED'', Some [1, 2, 3], None)"
    by (simp add: GetProofStatus_def)
  note t = fulfilled_and_late_is_completed_then_failed [OF h1 h2 h3]
  from h1 h2 h3 t show ?thesis by blast
qed

text \<open>
  Once the request could be sent (\<^verbatim>\<open>http.NewRequest\<close> and \<^verbatim>\<open>client.Do\<close> returned
  no error), \<^verbatim>\<open>GetProofStatus\<close> and \<^verbatim>\<open>RequestProofFromServer\<close> return a \<^verbatim>\<open>nil\<close> error,
  whatever \<^verbatim>\<open>ioutil.ReadAll\<close> and \<^verbatim>\<open>json.Unmarshal\<close> return.
\<close>

theorem decode_errors_never_reach_the_caller:
  assumes "http_NewRequest E ''GET'' (KonaServerUrl (Cfg E) @ ''/status/'' @ proofId) = None"
    and "client_Do E tr ''GET'' (KonaServerUrl (Cfg E) @ ''/status/'' @ proofId) = Inr resp"
    and "http_NewRequest E ''POST'' (KonaServerUrl (Cfg E)) = None"
    and "client_Do E (tr @ [HttpPost (KonaServerUrl (Cfg E)) jsonBody]) ''POST'' (KonaServerUrl (Cfg E)) = Inr resp'"
  shows "snd (snd (GetProofStatus E tr proofId)) = None \<and>
         snd (fst (RequestProofFromServer E jsonBody tr)) = None"
  using assms
  by (simp add: GetProofStatus_def RequestProofFromServer_def Let_def)

text \<open>A run that meets the hypotheses of the last theorem.\<close>

theorem decode_errors_never_reach_the_caller_witness:
  "http_NewRequest garbled_env ''GET'' (KonaServerUrl (Cfg garbled_env) @ ''/status/'' @ ''kona-3'') = None \<and>
   client_Do garbled_env [] ''GET'' (KonaServerUrl (Cfg garbled_env) @ ''/status/'' @ ''kona-3'') =
     Inr \<lparr>ReadAll_body = ''<html>'', ReadAll_err = Some (Error ''unexpected EOF'')\<rparr> \<and>
   http_NewRequest garbled_env ''POST'' (KonaServerUrl (Cfg garbled_env)) = None \<and>
   client_Do garbled_env ([] @ [HttpPost (KonaServerUrl (Cfg garbled_env)) JNull]) ''POST''
       (KonaServerUrl (Cfg garbled_env)) =
     Inr \<lparr>ReadAll_body = ''<html>'', ReadAll_err = Some (Error ''unexpected EOF'')\<rparr> \<and>
   snd (snd (GetProofStatus garbled_env [] ''kona-3'')) = None \<and>
   snd (fst (RequestProofFromServer garbled_env JNull [])) = None"
proof -
  let ?r = "\<lparr>ReadAll_body = ''<html>'', ReadAll_err = Some (Error ''unexpected EOF'')\<rparr>"
  have h1: "http_NewRequest garbled_env ''GET'' (KonaServerUrl (Cfg garbled_env) @ ''/status/'' @ ''kona-3'') = None"
    by simp
  have h2: "client_Do garbled_env [] ''GET'' (KonaServerUrl (Cfg garbled_env) @ ''/status/'' @ ''kona-3'') = Inr ?r"
    by simp
  have h3: "http_NewRequest garbled_env ''POST'' (KonaServerUrl (Cfg garbled_env)) = None"
    by simp
  have h4: "client_Do garbled_env ([] @ [HttpPost (KonaServerUrl (Cfg garbled_env)) JNull]) ''POST''
       (KonaServerUrl (Cfg garbled_env)) = Inr ?r"
    by simp
  note t = decode_errors_never_reach_the_caller [OF h1 h2 h3 h4]
  from h1 h2 h3 h4 t show ?thesis by blast
qed

text \<open>
  In \<^verbatim>\<open>RequestQueuedProofs\<close>, the iteration for an AGG entry whose checkpoint
  could be fetched calls \<^verbatim>\<open>AddL1BlockInfo\<close> with the entry's range and the checkpoint, and
  starts the goroutine for the entry, whatever the store answers to \<^verbatim>\<open>AddL1BlockInfo\<close>.
\<close>

theorem agg_worker_started_whatever_the_store_answers:
  assumes "rq_result st = None" and "rq_rest st = x # xs" and "Type x = TypeAGG"
    and "checkpointBlockHash E (rq_trace st) = Inr (blockNumber, blockHash)"
  shows "rq_workers (main_step E st) = rq_workers st @ [\<lparr>w_p = x, w_pc = AtUpdateREQ\<rparr>] \<and>
         rq_trace (main_step E st) =
           rq_trace st @ [AddL1BlockInfo (StartBlock x) (EndBlock x) blockNumber blockHash] \<and>
         rq_result (main_step E st) = None"
  using assms
  by (simp add: main_step_def spawn_def db_call_def)

text \<open>A run that meets the hypotheses of the last theorem.\<close>

theorem agg_worker_started_whatever_the_store_answers_witness:
  "rq_result \<lparr>rq_rest = [agg_1001_1300], rq_proof = zero_ProofRequest, rq_workers = [],
              rq_result = None, rq_trace = []\<rparr> = None \<and>
   rq_rest \<lparr>rq_rest = [agg_1001_1300], rq_proof = zero_ProofRequest, rq_workers = [],
            rq_result = None, rq_trace = []\<rparr> = agg_1001_1300 # [] \<and>
   Type agg_1001_1300 = TypeAGG \<and>
   checkpointBlockHash (no_checkpoint_env [agg_1001_1300])
     (rq_trace \<lparr>rq_rest = [agg_1001_1300], rq_proof = zero_ProofRequest, rq_workers = [],
                rq_result = None, rq_trace = []\<rparr>) = Inr (77, ''0xabc'') \<and>
   rq_workers (main_step (no_checkpoint_env [agg_1001_1300])
      \<lparr>rq_rest = [agg_1001_1300], rq_proof = zero_ProofRequest, rq_workers = [],
       rq_result = None, rq_trace = []\<rparr>) = [\<lparr>w_p = agg_1001_1300, w_pc = AtUpdateREQ\<rparr>] \<and>
   db_reply (no_checkpoint_env [agg_1001_1300]) []
     (AddL1BlockInfo (StartBlock agg_1001_1300) (EndBlock agg_1001_1300) 77 ''0xabc'') =
     Some (Error ''proof request not found'')"
proof -
  let ?st = "\<lparr>rq_rest = [agg_1001_1300], rq_proof = zero_ProofRequest, rq_workers = [],
              rq_result = None, rq_trace = []\<rparr>"
  have h1: "rq_result ?st = None" by simp
  have h2: "rq_rest ?st = agg_1001_1300 # []" by simp
  have h3: "Type agg_1001_1300 = TypeAGG" by (simp add: agg_1001_1300_def)
  have h4: "checkpointBlockHash (no_checkpoint_env [agg_1001_1300]) (rq_trace ?st) = Inr (77, ''0xabc'')"
    by simp
  from agg_worker_started_whatever_the_store_answers [OF h1 h2 h3 h4]
  have t: "rq_workers (main_step (no_checkpoint_env [agg_1001_1300]) ?st) =
             [\<lparr>w_p = agg_1001_1300, w_pc = AtUpdateREQ\<rparr>]"
    by simp
  have r: "db_reply (no_checkpoint_env [agg_1001_1300]) []
     (AddL1BlockInfo (StartBlock agg_1001_1300) (EndBlock agg_1001_1300) 77 ''0xabc'') =
     Some (Error ''proof request not found'')"
    by simp
  from h1 h2 h3 h4 t r show ?thesis by blast
qed

text \<open>
  When the loop has one variable per iteration (Go 1.22 and later), the two
  status updates of a goroutine use the id of the entry the goroutine was started for.
\<close>

theorem status_updates_use_own_id_with_per_iteration_variable:
  assumes "loopvar_per_iteration E" and "k < length (rq_workers st)"
    and "w_pc (rq_workers st ! k) = AtUpdateREQ \<or> w_pc (rq_workers st ! k) = AtRevert"
  shows "\<exists>status. rq_trace (worker_step E k st) =
           rq_trace st @ [UpdateProofStatus (ID (w_p (rq_workers st ! k))) status]"
  using assms
  by (auto simp: worker_step_def closure_proof_def db_call_def set_pc_def Let_def
           split: option.splits)

text \<open>A run that meets the hypotheses of the last theorem.\<close>

theorem status_updates_use_own_id_with_per_iteration_variable_witness:
  "loopvar_per_iteration (idle_env\<lparr>loopvar_per_iteration := True\<rparr>) \<and>
   (0 :: nat) < length (rq_workers \<lparr>rq_rest = [], rq_proof = span_1101_1200,
        rq_workers = [\<lparr>w_p = span_1001_1100, w_pc = AtUpdateREQ\<rparr>], rq_result = Some None, rq_trace = []\<rparr>) \<and>
   (w_pc (rq_workers \<lparr>rq_rest = [], rq_proof = span_1101_1200,
        rq_workers = [\<lparr>w_p = span_1001_1100, w_pc = AtUpdateREQ\<rparr>], rq_result = Some None, rq_trace = []\<rparr> ! 0) = AtUpdateREQ) \<and>
   rq_trace (worker_step (idle_env\<lparr>loopvar_per_iteration := True\<rparr>) 0
      \<lparr>rq_rest = [], rq_proof = span_1101_1200,
       rq_workers = [\<lparr>w_p = span_1001_1100, w_pc = AtUpdateREQ\<rparr>], rq_result = Some None, rq_trace = []\<rparr>) =
     [UpdateProofStatus 3 ''REQ'']"
proof -
  let ?E = "idle_env\<lparr>loopvar_per_iteration := True\<rparr>"
  let ?st = "\<lparr>rq_rest = [], rq_proof = span_1101_1200,
        rq_workers = [\<lparr>w_p = span_1001_1100, w_pc = AtUpdateREQ\<rparr>], rq_result = Some None, rq_trace = []\<rparr>"
  have h1: "loopvar_per_iteration ?E" by simp
  have h2: "0 < length (rq_workers ?st)" by simp
  have h3: "w_pc (rq_workers ?st ! 0) = AtUpdateREQ" by simp
  then have h3': "w_pc (rq_workers ?st ! 0) = AtUpdateREQ \<or> w_pc (rq_workers ?st ! 0) = AtRevert" by simp
  note t = status_updates_use_own_id_with_per_iteration_variable [OF h1 h2 h3']
  have v: "rq_trace (worker_step ?E 0 ?st) = [UpdateProofStatus 3 ''REQ'']"
    using t by (simp add: worker_step_def closure_proof_def db_call_def set_pc_def span_1001_1100_def)
  from h1 h2 h3 v show ?thesis by blast
qed

end
